theory Spec2Isabelle
  imports Complex_Main "HOL-Library.Sublist"
begin

section \<open>Python values\<close>

text \<open>
  The values \<open>json.loads\<close> produces, which are also the values a caller passes as request
  parameters: \<open>None\<close>, booleans, unbounded integers, floats, strings, lists and
  dictionaries with string keys. A dictionary is the list of its items in insertion order;
  a key is looked up with \<open>map_of\<close>.
\<close>

datatype pyfloat = Finite rat | PosInf | NegInf | NaN

datatype pyval =
    PNone
  | PBool bool
  | PInt int
  | PFloat pyfloat
  | PStr string
  | PList "pyval list"
  | PDict "(string \<times> pyval) list"

type_synonym bytes = string
type_synonym params = "(string \<times> pyval) list"

section \<open>Exceptions\<close>

text \<open>
  The three exception classes of \<open>twython.exceptions\<close> are imported by \<open>api.py\<close>; their
  constructors are not part of it. An exception raised by \<open>api.py\<close> is therefore modelled
  as the constructor call itself: the class, the message argument, and the keyword
  arguments \<open>error_code\<close> and \<open>retry_after\<close> (\<open>None\<close> when the call does not pass them).
  The message is a Python value, or the raw response bytes where the source passes
  \<open>response.content\<close>.
\<close>

datatype exc_class = TwythonError | TwythonAuthError | TwythonRateLimitError

datatype exc_msg = Msg pyval | MsgBytes bytes

datatype pyexc =
    Twython exc_class exc_msg "int option" "string option"
  | AttributeError
  | KeyError
  | IndexError
  | TypeError
  | ValueError
  | OverflowError
  | UnicodeDecodeError
  | RuntimeError
  | RequestException string

fun is_twython :: "pyexc \<Rightarrow> bool" where
  "is_twython (Twython c m code ra) = True"
| "is_twython _ = False"

section \<open>Built-in operations on Python values\<close>

text \<open>Truth value testing, as \<open>if x\<close> and \<open>not x\<close> do it.\<close>

fun truthy :: "pyval \<Rightarrow> bool" where
  "truthy PNone = False"
| "truthy (PBool b) = b"
| "truthy (PInt i) = (i \<noteq> 0)"
| "truthy (PFloat (Finite q)) = (q \<noteq> 0)"
| "truthy (PFloat _) = True"
| "truthy (PStr s) = (s \<noteq> [])"
| "truthy (PList xs) = (xs \<noteq> [])"
| "truthy (PDict d) = (d \<noteq> [])"

text \<open>\<open>x.get(key, default)\<close>: only a dictionary has the method.\<close>

fun py_get :: "pyval \<Rightarrow> string \<Rightarrow> pyval \<Rightarrow> pyexc + pyval" where
  "py_get (PDict d) k dflt = Inr (case map_of d k of None \<Rightarrow> dflt | Some v \<Rightarrow> v)"
| "py_get _ k dflt = Inl AttributeError"

text \<open>\<open>x[key]\<close> with a string key: a missing key of a dictionary is a \<open>KeyError\<close>, a
  sequence rejects the string index and a scalar is not subscriptable, both \<open>TypeError\<close>.\<close>

fun py_item :: "pyval \<Rightarrow> string \<Rightarrow> pyexc + pyval" where
  "py_item (PDict d) k = (case map_of d k of None \<Rightarrow> Inl KeyError | Some v \<Rightarrow> Inr v)"
| "py_item _ k = Inl TypeError"

text \<open>\<open>x[0]\<close>: the keys of a decoded object are strings, so \<open>0\<close> is never one of them.\<close>

fun py_index0 :: "pyval \<Rightarrow> pyexc + pyval" where
  "py_index0 (PList []) = Inl IndexError"
| "py_index0 (PList (x # xs)) = Inr x"
| "py_index0 (PStr []) = Inl IndexError"
| "py_index0 (PStr (c # cs)) = Inr (PStr [c])"
| "py_index0 (PDict d) = Inl KeyError"
| "py_index0 _ = Inl TypeError"

text \<open>\<open>for x in v\<close>: the elements of a list, the characters of a string, the keys of a
  dictionary; anything else is not iterable.\<close>

fun py_iter :: "pyval \<Rightarrow> pyexc + pyval list" where
  "py_iter (PList xs) = Inr xs"
| "py_iter (PStr s) = Inr (map (\<lambda>c. PStr [c]) s)"
| "py_iter (PDict d) = Inr (map (\<lambda>kv. PStr (fst kv)) d)"
| "py_iter _ = Inl TypeError"

text \<open>\<open>needle in hay\<close> for two strings: \<open>needle\<close> occurs as a contiguous substring.\<close>

fun contains :: "string \<Rightarrow> string \<Rightarrow> bool" where
  "contains needle [] = (needle = [])"
| "contains needle (c # cs) = (prefix needle (c # cs) \<or> contains needle cs)"

text \<open>\<open>needle in x\<close> with a string on the left: substring of a string, element of a list
  (only an equal string is equal to a string), key of a dictionary; a scalar is not a
  container.\<close>

fun py_in :: "string \<Rightarrow> pyval \<Rightarrow> pyexc + bool" where
  "py_in needle (PStr s) = Inr (contains needle s)"
| "py_in needle (PList xs) = Inr (PStr needle \<in> set xs)"
| "py_in needle (PDict d) = Inr (needle \<in> fst ` set d)"
| "py_in needle _ = Inl TypeError"

text \<open>\<open>str.lower()\<close> on the ASCII letters.\<close>

definition lower_char :: "char \<Rightarrow> char" where
  "lower_char c =
     (let n = (of_char c :: nat) in if 65 \<le> n \<and> n \<le> 90 then char_of (n + 32) else c)"

definition lower :: "string \<Rightarrow> string" where
  "lower s = map lower_char s"

text \<open>\<open>d[k] = v\<close> on a dictionary: an existing key keeps its place.\<close>

fun dict_set :: "('k \<times> 'v) list \<Rightarrow> 'k \<Rightarrow> 'v \<Rightarrow> ('k \<times> 'v) list" where
  "dict_set [] k v = [(k, v)]"
| "dict_set ((k', v') # d) k v = (if k' = k then (k, v) # d else (k', v') # dict_set d k v)"

text \<open>\<open>dict(pairs)\<close>: the pairs are stored in order, a later pair replacing an earlier one
  with the same key.\<close>

definition dict_of :: "('k \<times> 'v) list \<Rightarrow> ('k \<times> 'v) list" where
  "dict_of pairs = foldl (\<lambda>d kv. dict_set d (fst kv) (snd kv)) [] pairs"

section \<open>The HTTP session and the libraries around \<open>api.py\<close>\<close>

datatype oauth1 = OAuth1 string string "string option" "string option"

record session =
  s_headers :: "(string \<times> string) list"
  proxies :: "(string \<times> string) list option"
  auth :: "oauth1 option"
  verify :: bool

record response =
  status_code :: int
  headers :: "string \<Rightarrow> string option"
  cookies :: "(string \<times> string) list"
  url :: string
  content :: bytes

text \<open>How the parameters travel: \<open>func(url, params=params)\<close> for a GET,
  \<open>func(url, data=params, files=files)\<close> otherwise.\<close>

datatype payload = Query params | Body params params

text \<open>
  What \<open>api.py\<close> calls but does not define is a parameter of the model, so that every
  theorem holds for each behaviour of these functions:
  \<^item> \<open>send t s method url payload\<close> is \<open>getattr(session, method)(url, ...)\<close> of the
    \<open>requests\<close> session \<open>s\<close>, as the \<open>t\<close>-th HTTP call of the run: the response
    of the server, or the exception the transport raises (also for a method name the
    session does not have);
  \<^item> \<open>decode\<close> is \<open>bytes.decode('utf-8')\<close>, \<open>None\<close> for \<open>UnicodeDecodeError\<close>;
  \<^item> \<open>loads\<close> is \<open>json.loads\<close>, \<open>None\<close> for \<open>ValueError\<close>;
  \<^item> \<open>transparent_params\<close> is \<open>helpers._transparent_params\<close>, which splits the
    parameters into encoded parameters and file payloads;
  \<^item> \<open>parse_qsl\<close> and \<open>urlencode\<close> are the functions of \<open>urllib\<close>;
  \<^item> \<open>int_of_str\<close> is the built-in \<open>int\<close> on a string, \<open>None\<close> for \<open>ValueError\<close>;
  \<^item> \<open>version\<close> is the package's \<open>__version__\<close>;
  \<^item> \<open>generator_stop\<close> tells the Python that runs the code: true from Python 3.7 on,
    where a \<open>StopIteration\<close> raised in the body of a generator reaches the consumer as
    \<open>RuntimeError\<close> (PEP 479), false before, where it ends the iteration.
\<close>

record env =
  send :: "nat \<Rightarrow> session \<Rightarrow> string \<Rightarrow> string \<Rightarrow> payload \<Rightarrow> pyexc + response"
  decode :: "bytes \<Rightarrow> string option"
  loads :: "string \<Rightarrow> pyval option"
  transparent_params :: "params \<Rightarrow> params \<times> params"
  parse_qsl :: "string \<Rightarrow> (string \<times> string) list"
  urlencode :: "params \<Rightarrow> string"
  int_of_str :: "string \<Rightarrow> int option"
  version :: string
  generator_stop :: bool

section \<open>The client\<close>

text \<open>The dictionary \<open>self._last_call\<close>; \<open>api_error\<close> is a Python value, \<open>PNone\<close> for
  \<open>None\<close>.\<close>

record last_call =
  lc_api_call :: "string option"
  lc_api_error :: pyval
  lc_cookies :: "(string \<times> string) list"
  lc_headers :: "string \<Rightarrow> string option"
  lc_status_code :: int
  lc_url :: string
  lc_content :: string

text \<open>
  The attributes of a \<open>Twython\<close> instance. \<open>__init__\<close> assigns every one of them except
  \<open>callback_url\<close>, which \<open>get_authentication_tokens\<close> reads: the field is \<open>None\<close> while
  the instance has no such attribute (reading it raises \<open>AttributeError\<close>) and
  \<open>Some v\<close> once code outside the class has assigned \<open>v\<close> to it.
\<close>

record twython =
  api_version :: string
  request_token_url :: string
  access_token_url :: string
  authenticate_url :: string
  app_key :: "string option"
  app_secret :: "string option"
  oauth_token :: "string option"
  oauth_token_secret :: "string option"
  client :: session
  last_call :: "last_call option"
  callback_url :: "string option option"

text \<open>\<open>self.api_url % x\<close> with \<open>api_url = 'https://api.twitter.com/%s'\<close>.\<close>

definition api_url :: "string \<Rightarrow> string" where
  "api_url x = ''https://api.twitter.com/'' @ x"

definition init ::
  "env \<Rightarrow> string option \<Rightarrow> string option \<Rightarrow> string option \<Rightarrow> string option \<Rightarrow>
   (string \<times> string) list option \<Rightarrow> (string \<times> string) list option \<Rightarrow> string \<Rightarrow> bool \<Rightarrow> twython"
where
  "init env key secret token token_secret hdrs prox api_ver ssl_verify =
     (let req_headers = [(''User-Agent'', ''Twython v'' @ version env)];
          req_headers = (case hdrs of None \<Rightarrow> req_headers
                         | Some h \<Rightarrow> if h \<noteq> [] then foldl (\<lambda>d kv. dict_set d (fst kv) (snd kv)) req_headers h
                                     else req_headers);
          auth0 = None;
          auth1 = (if key \<noteq> None \<and> secret \<noteq> None \<and> token = None \<and> token_secret = None
                   then Some (OAuth1 (the key) (the secret) None None) else auth0);
          auth2 = (if key \<noteq> None \<and> secret \<noteq> None \<and> token \<noteq> None \<and> token_secret \<noteq> None
                   then Some (OAuth1 (the key) (the secret) token token_secret) else auth1)
      in \<lparr> api_version = api_ver,
           request_token_url = api_url ''oauth/request_token'',
           access_token_url = api_url ''oauth/access_token'',
           authenticate_url = api_url ''oauth/authenticate'',
           app_key = key, app_secret = secret,
           oauth_token = token, oauth_token_secret = token_secret,
           client = \<lparr> s_headers = req_headers, proxies = prox, auth = auth2, verify = ssl_verify \<rparr>,
           last_call = None,
           callback_url = None \<rparr>)"

section \<open>The request pipeline\<close>

text \<open>Lines 118-123 of \<open>_request\<close>: the error message of a response with a status above
  304, from the decoded body.\<close>

definition default_errors :: pyval where
  "default_errors = PList [PDict [(''message'', PStr ''An error occurred processing your request.'')]]"

definition error_message_of :: "pyval \<Rightarrow> pyexc + pyval" where
  "error_message_of body =
     (case py_get body ''errors'' default_errors of
        Inl e \<Rightarrow> Inl e
      | Inr errors \<Rightarrow>
          (if truthy errors \<and> (case errors of PList xs \<Rightarrow> True | _ \<Rightarrow> False)
           then (case py_index0 errors of
                   Inl e \<Rightarrow> Inl e
                 | Inr first \<Rightarrow> py_item first ''message'')
           else Inr errors))"

text \<open>Lines 126-133: the exception class. The test for the substring is evaluated only when
  the status is neither 429 nor 401.\<close>

definition exception_type :: "int \<Rightarrow> pyval \<Rightarrow> pyexc + exc_class" where
  "exception_type status error_message =
     (if status = 429 then Inr TwythonRateLimitError
      else if status = 401 then Inr TwythonAuthError
      else (case py_in ''Bad Authentication data'' error_message of
              Inl e \<Rightarrow> Inl e
            | Inr found \<Rightarrow> Inr (if found then TwythonAuthError else TwythonError)))"

definition invalid_json :: pyexc where
  "invalid_json =
     Twython TwythonError (Msg (PStr ''Response was not valid JSON, unable to decode.'')) None None"

text \<open>Lines 80-88 of \<open>_request\<close>: the method name is lowered, \<open>params or {}\<close> is
  split by the helper, and the session method is called with the parameters in the query
  for a GET and in the body otherwise.\<close>

definition transmit ::
  "env \<Rightarrow> nat \<Rightarrow> twython \<Rightarrow> string \<Rightarrow> string \<Rightarrow> params option \<Rightarrow> pyexc + response"
where
  "transmit env t self url0 method0 params0 =
     (let method = lower method0;
          params1 = (case params0 of None \<Rightarrow> [] | Some p \<Rightarrow> p);
          (params2, files) = transparent_params env params1
      in if method = ''get'' then send env t (client self) method url0 (Query params2)
         else send env t (client self) method url0 (Body params2 files))"

text \<open>Lines 104-114: the decoded body, an empty dictionary when the text is not JSON.\<close>

definition body_of :: "env \<Rightarrow> string \<Rightarrow> pyval" where
  "body_of env text = (case loads env text of None \<Rightarrow> PDict [] | Some v \<Rightarrow> v)"

text \<open>
  \<open>Twython._request\<close>. The result is what the call returns or raises, together with the
  client after the call. \<open>content.json()\<close> always raises \<open>AttributeError\<close> on a string,
  so the body is parsed by \<open>json.loads\<close>. The response is decoded before
  \<open>self._last_call\<close> is assigned, so a call that fails in the transport or in the
  decoding leaves the client as it was.
\<close>

definition request_internal ::
  "env \<Rightarrow> nat \<Rightarrow> twython \<Rightarrow> string \<Rightarrow> string \<Rightarrow> params option \<Rightarrow> string option \<Rightarrow>
   (pyexc + pyval) \<times> twython"
where
  "request_internal env t self url0 method0 params0 api_call =
     (case transmit env t self url0 method0 params0 of
        Inl e \<Rightarrow> (Inl e, self)
      | Inr resp \<Rightarrow>
          (case decode env (content resp) of
             None \<Rightarrow> (Inl UnicodeDecodeError, self)
           | Some text \<Rightarrow>
               (let stash = \<lparr> lc_api_call = api_call, lc_api_error = PNone,
                              lc_cookies = cookies resp, lc_headers = headers resp,
                              lc_status_code = status_code resp, lc_url = url resp,
                              lc_content = text \<rparr>;
                    self1 = self\<lparr>last_call := Some stash\<rparr>;
                    json_error = (loads env text = None);
                    body = body_of env text
                in if status_code resp > 304 then
                     (case error_message_of body of
                        Inl e \<Rightarrow> (Inl e, self1)
                      | Inr error_message \<Rightarrow>
                          (let self2 = self\<lparr>last_call := Some (stash\<lparr>lc_api_error := error_message\<rparr>)\<rparr>
                           in case exception_type (status_code resp) error_message of
                                Inl e \<Rightarrow> (Inl e, self2)
                              | Inr cls \<Rightarrow>
                                  (Inl (Twython cls (Msg error_message) (Some (status_code resp))
                                          (headers resp ''retry-after'')), self2)))
                   else if json_error \<and> status_code resp \<notin> {200, 201, 202} then
                     (Inl invalid_json, self1)
                   else (Inr body, self1))))"

text \<open>\<open>Twython.request\<close>, \<open>get\<close> and \<open>post\<close>.\<close>

definition request ::
  "env \<Rightarrow> nat \<Rightarrow> twython \<Rightarrow> string \<Rightarrow> string \<Rightarrow> params option \<Rightarrow> string \<Rightarrow>
   (pyexc + pyval) \<times> twython"
where
  "request env t self endpoint method params ver =
     (let url1 = (if prefix ''http://'' endpoint \<or> prefix ''https://'' endpoint then endpoint
                  else api_url ver @ ''/'' @ endpoint @ ''.json'')
      in request_internal env t self url1 method params (Some url1))"

definition get ::
  "env \<Rightarrow> nat \<Rightarrow> twython \<Rightarrow> string \<Rightarrow> params option \<Rightarrow> string \<Rightarrow> (pyexc + pyval) \<times> twython"
where
  "get env t self endpoint params ver = request env t self endpoint ''GET'' params ver"

definition post ::
  "env \<Rightarrow> nat \<Rightarrow> twython \<Rightarrow> string \<Rightarrow> params option \<Rightarrow> string \<Rightarrow> (pyexc + pyval) \<times> twython"
where
  "post env t self endpoint params ver = request env t self endpoint ''POST'' params ver"

section \<open>The header of the last call\<close>

definition no_call_yet :: pyexc where
  "no_call_yet =
     Twython TwythonError
       (Msg (PStr ''This function must be called after an API call.  It delivers header information.''))
       None None"

text \<open>\<open>Twython.get_lastfunction_header\<close>; the result \<open>None\<close> is Python's \<open>None\<close>.\<close>

definition get_lastfunction_header :: "twython \<Rightarrow> string \<Rightarrow> pyexc + string option" where
  "get_lastfunction_header self header =
     (case last_call self of
        None \<Rightarrow> Inl no_call_yet
      | Some lc \<Rightarrow>
          (if lc_headers lc header \<noteq> None then Inr (lc_headers lc header) else Inr None))"

section \<open>The authorization flow\<close>

text \<open>The truth value of an optional string: \<open>None\<close> and the empty string are false.\<close>

fun truthy_opt :: "string option \<Rightarrow> bool" where
  "truthy_opt None = False"
| "truthy_opt (Some s) = (s \<noteq> [])"

text \<open>Reading \<open>self.callback_url\<close>.\<close>

definition read_callback_url :: "twython \<Rightarrow> pyexc + string option" where
  "read_callback_url self = (case callback_url self of None \<Rightarrow> Inl AttributeError | Some v \<Rightarrow> Inr v)"

definition opt_val :: "string option \<Rightarrow> pyval" where
  "opt_val v = (case v of None \<Rightarrow> PNone | Some s \<Rightarrow> PStr s)"

definition no_request_tokens :: pyexc where
  "no_request_tokens = Twython TwythonError (Msg (PStr ''Unable to decode request tokens.'')) None None"

definition no_authorized_tokens :: pyexc where
  "no_authorized_tokens =
     Twython TwythonError (Msg (PStr ''Unable to decode authorized tokens.'')) None None"

text \<open>Lines 223-241 of \<open>get_authentication_tokens\<close>: the authorization URL is added
  to the parsed tokens. \<open>callback_url1\<close> is the local variable \<open>callback_url\<close> after
  line 208; the parameter \<open>oauth_callback\<close> is taken from the attribute
  \<open>self.callback_url\<close>.\<close>

definition add_auth_url ::
  "env \<Rightarrow> twython \<Rightarrow> string option \<Rightarrow> bool \<Rightarrow> string \<Rightarrow> (string \<times> string) list \<Rightarrow>
   pyexc + (string \<times> string) list"
where
  "add_auth_url env self callback_url1 force_login screen_name request_tokens =
     (let oauth_callback_confirmed =
            (map_of request_tokens ''oauth_callback_confirmed'' = Some ''true'')
      in case map_of request_tokens ''oauth_token'' of
           None \<Rightarrow> Inl KeyError
         | Some tok \<Rightarrow>
             (let auth_url_params0 = [(''oauth_token'', PStr tok)];
                  auth_url_params1 =
                    (if force_login
                     then dict_set (dict_set auth_url_params0 ''force_login'' (PBool force_login))
                            ''screen_name'' (PStr screen_name)
                     else auth_url_params0);
                  auth_url_params2 =
                    (if truthy_opt callback_url1 \<and> \<not> oauth_callback_confirmed
                     then (case read_callback_url self of
                             Inl e \<Rightarrow> Inl e
                           | Inr cb \<Rightarrow> Inr (dict_set auth_url_params1 ''oauth_callback'' (opt_val cb)))
                     else Inr auth_url_params1)
              in case auth_url_params2 of
                   Inl e \<Rightarrow> Inl e
                 | Inr auth_url_params \<Rightarrow>
                     Inr (dict_set request_tokens ''auth_url''
                            (authenticate_url self @ ''?'' @ urlencode env auth_url_params))))"

text \<open>\<open>Twython.get_authentication_tokens\<close>. In \<open>callback_url or self.callback_url\<close>
  the attribute is read only when the argument is false.\<close>

definition get_authentication_tokens ::
  "env \<Rightarrow> nat \<Rightarrow> twython \<Rightarrow> string option \<Rightarrow> bool \<Rightarrow> string \<Rightarrow> pyexc + (string \<times> string) list"
where
  "get_authentication_tokens env t self callback_url0 force_login screen_name =
     (case (if truthy_opt callback_url0 then Inr callback_url0 else read_callback_url self) of
        Inl e \<Rightarrow> Inl e
      | Inr callback_url1 \<Rightarrow>
          (let request_args = (if truthy_opt callback_url1
                               then [(''oauth_callback'', opt_val callback_url1)] else [])
           in case send env t (client self) ''get'' (request_token_url self) (Query request_args) of
                Inl e \<Rightarrow> Inl e
              | Inr resp \<Rightarrow>
                  (if status_code resp = 401 then
                     Inl (Twython TwythonAuthError (MsgBytes (content resp)) (Some (status_code resp)) None)
                   else if status_code resp \<noteq> 200 then
                     Inl (Twython TwythonError (MsgBytes (content resp)) (Some (status_code resp)) None)
                   else
                     (case decode env (content resp) of
                        None \<Rightarrow> Inl UnicodeDecodeError
                      | Some text \<Rightarrow>
                          (let request_tokens = dict_of (parse_qsl env text)
                           in if request_tokens = [] then Inl no_request_tokens
                              else add_auth_url env self callback_url1 force_login screen_name
                                     request_tokens)))))"

text \<open>\<open>Twython.get_authorized_tokens\<close>.\<close>

definition get_authorized_tokens ::
  "env \<Rightarrow> nat \<Rightarrow> twython \<Rightarrow> pyval \<Rightarrow> pyexc + (string \<times> string) list"
where
  "get_authorized_tokens env t self oauth_verifier =
     (case send env t (client self) ''get'' (access_token_url self)
             (Query [(''oauth_verifier'', oauth_verifier)]) of
        Inl e \<Rightarrow> Inl e
      | Inr resp \<Rightarrow>
          (case decode env (content resp) of
             None \<Rightarrow> Inl UnicodeDecodeError
           | Some text \<Rightarrow>
               (let authorized_tokens = dict_of (parse_qsl env text)
                in if authorized_tokens = [] then Inl no_authorized_tokens
                   else Inr authorized_tokens)))"

section \<open>The paginating search generator\<close>

text \<open>The built-in \<open>int(x)\<close>: a float is truncated towards zero, an infinity raises
  \<open>OverflowError\<close> and a NaN \<open>ValueError\<close>; a string is parsed; \<open>None\<close>, lists and
  dictionaries are a \<open>TypeError\<close>.\<close>

fun py_int :: "env \<Rightarrow> pyval \<Rightarrow> pyexc + int" where
  "py_int env PNone = Inl TypeError"
| "py_int env (PBool b) = Inr (if b then 1 else 0)"
| "py_int env (PInt i) = Inr i"
| "py_int env (PFloat (Finite q)) = Inr (if 0 \<le> q then \<lfloor>q\<rfloor> else \<lceil>q\<rceil>)"
| "py_int env (PFloat NaN) = Inl ValueError"
| "py_int env (PFloat _) = Inl OverflowError"
| "py_int env (PStr s) = (case int_of_str env s of None \<Rightarrow> Inl ValueError | Some i \<Rightarrow> Inr i)"
| "py_int env (PList xs) = Inl TypeError"
| "py_int env (PDict d) = Inl TypeError"

text \<open>
  Modelled from the spec: \<open>Twython.search\<close> is defined in \<open>twython/endpoints.py\<close>, which
  is not among the sources. The spec has the generator "call search with \<open>q=query\<close> and
  current params", "backed by repeated calls to the search endpoint" through the request
  facade: a GET of the endpoint \<open>search/tweets\<close> with the keyword arguments as parameters.
\<close>

definition search :: "env \<Rightarrow> nat \<Rightarrow> twython \<Rightarrow> params \<Rightarrow> (pyexc + pyval) \<times> twython" where
  "search env t self params = get env t self ''search/tweets'' (Some params) ''1.1''"

definition pagination_error :: pyexc where
  "pagination_error =
     Twython TwythonError
       (Msg (PStr ''Unable to generate next page of search results, `page` is not a number.''))
       None None"

text \<open>How a run of the generator ends: exhausted, so that the consumer's loop ends; with
  an exception that reaches the consumer; or suspended, when the consumer has asked for no
  more pages.\<close>

datatype gen_end = Exhausted | Raised pyexc | Suspended

text \<open>\<open>raise StopIteration\<close> in the body of the generator (line 313).\<close>

definition stop_iteration :: "env \<Rightarrow> gen_end" where
  "stop_iteration env = (if generator_stop env then Raised RuntimeError else Exhausted)"

definition yield_then ::
  "pyval list \<Rightarrow> (pyval list \<times> gen_end) \<times> twython \<Rightarrow> (pyval list \<times> gen_end) \<times> twython"
where
  "yield_then tweets r = ((tweets @ fst (fst r), snd (fst r)), snd r)"

text \<open>Lines 318-322: the parameters of the next page. \<open>TypeError\<close> and \<open>ValueError\<close>
  are replaced by the pagination error, any other exception passes.\<close>

definition next_params :: "env \<Rightarrow> params \<Rightarrow> pyval \<Rightarrow> pyexc + params" where
  "next_params env params body =
     (let attempt =
            (if ''since_id'' \<notin> fst ` set params then
               (case py_item body ''statuses'' of
                  Inl e \<Rightarrow> Inl e
                | Inr statuses \<Rightarrow>
                    (case py_index0 statuses of
                       Inl e \<Rightarrow> Inl e
                     | Inr first \<Rightarrow>
                         (case py_item first ''id_str'' of
                            Inl e \<Rightarrow> Inl e
                          | Inr id_str \<Rightarrow>
                              (case py_int env id_str of
                                 Inl e \<Rightarrow> Inl e
                               | Inr i \<Rightarrow> Inr (dict_set params ''since_id'' (PInt (i + 1)))))))
             else Inr params)
      in case attempt of
           Inl e \<Rightarrow> if e = TypeError \<or> e = ValueError then Inl pagination_error else Inl e
         | Inr params' \<Rightarrow> Inr params')"

text \<open>
  \<open>Twython.search_gen\<close>. The generator is lazy and may go on for ever; the first argument
  after the environment is the number of pages the consumer lets it fetch. The result is the
  list of the tweets yielded, in order, and how the run ended, with the client afterwards.
  A keyword argument \<open>q\<close> among \<open>params\<close> collides with \<open>q=search_query\<close> in the call
  of \<open>search\<close>, a \<open>TypeError\<close>. The end of the generator called in line 324 is the end
  of the calling one: its exhaustion ends the loop of line 324, after which the body returns,
  and its exception passes through the loop.
\<close>

fun search_gen ::
  "env \<Rightarrow> nat \<Rightarrow> nat \<Rightarrow> twython \<Rightarrow> pyval \<Rightarrow> params \<Rightarrow> (pyval list \<times> gen_end) \<times> twython"
where
  "search_gen env 0 t self search_query params = (([], Suspended), self)"
| "search_gen env (Suc n) t self search_query params =
     (if ''q'' \<in> fst ` set params then (([], Raised TypeError), self)
      else
        (case search env t self ((''q'', search_query) # params) of
           (Inl e, self1) \<Rightarrow> (([], Raised e), self1)
         | (Inr body, self1) \<Rightarrow>
             (case py_get body ''statuses'' PNone of
                Inl e \<Rightarrow> (([], Raised e), self1)
              | Inr statuses \<Rightarrow>
                  if \<not> truthy statuses then (([], stop_iteration env), self1)
                  else
                    (case (case py_item body ''statuses'' of Inl e \<Rightarrow> Inl e | Inr v \<Rightarrow> py_iter v) of
                       Inl e \<Rightarrow> (([], Raised e), self1)
                     | Inr tweets \<Rightarrow>
                         (case next_params env params body of
                            Inl e \<Rightarrow> ((tweets, Raised e), self1)
                          | Inr params' \<Rightarrow>
                              yield_then tweets
                                (search_gen env n (Suc t) self1 search_query params'))))))"

section \<open>Sample library functions\<close>

text \<open>
  Concrete stand-ins for the library functions, for the closed examples below. Each one
  gives the value of the real function at the inputs the examples use; none of the general
  theorems depends on them.
\<close>

text \<open>Strict UTF-8: the well-formed byte sequences of the Unicode standard. Text is
  represented by its UTF-8 bytes, so a well-formed body decodes to itself.\<close>

definition cont :: "nat \<Rightarrow> bool" where
  "cont b = (128 \<le> b \<and> b \<le> 191)"

fun utf8_ok :: "nat list \<Rightarrow> bool" where
  "utf8_ok [] = True"
| "utf8_ok [a] = (a < 128)"
| "utf8_ok [a, b] = (if a < 128 then utf8_ok [b] else 194 \<le> a \<and> a \<le> 223 \<and> cont b)"
| "utf8_ok [a, b, c] =
     (if a < 128 then utf8_ok [b, c]
      else if 194 \<le> a \<and> a \<le> 223 then cont b \<and> utf8_ok [c]
      else (a = 224 \<and> 160 \<le> b \<and> b \<le> 191 \<or> (225 \<le> a \<and> a \<le> 236 \<or> a = 238 \<or> a = 239) \<and> cont b
            \<or> a = 237 \<and> 128 \<le> b \<and> b \<le> 159) \<and> cont c)"
| "utf8_ok (a # b # c # d # r) =
     (if a < 128 then utf8_ok (b # c # d # r)
      else if 194 \<le> a \<and> a \<le> 223 then cont b \<and> utf8_ok (c # d # r)
      else if 224 \<le> a \<and> a \<le> 239 then
        (a = 224 \<and> 160 \<le> b \<and> b \<le> 191 \<or> (225 \<le> a \<and> a \<le> 236 \<or> a = 238 \<or> a = 239) \<and> cont b
         \<or> a = 237 \<and> 128 \<le> b \<and> b \<le> 159) \<and> cont c \<and> utf8_ok (d # r)
      else (a = 240 \<and> 144 \<le> b \<and> b \<le> 191 \<or> 241 \<le> a \<and> a \<le> 243 \<and> cont b
            \<or> a = 244 \<and> 128 \<le> b \<and> b \<le> 143) \<and> cont c \<and> cont d \<and> utf8_ok r)"

definition utf8_decode :: "bytes \<Rightarrow> string option" where
  "utf8_decode bs = (if utf8_ok (map of_char bs) then Some bs else None)"

text \<open>\<open>int\<close> on a string of ASCII digits with an optional sign.\<close>

definition digit_val :: "char \<Rightarrow> int option" where
  "digit_val c =
     (let n = (of_char c :: nat) in if 48 \<le> n \<and> n \<le> 57 then Some (int n - 48) else None)"

fun digits_val :: "int \<Rightarrow> string \<Rightarrow> int option" where
  "digits_val acc [] = Some acc"
| "digits_val acc (c # cs) =
     (case digit_val c of None \<Rightarrow> None | Some d \<Rightarrow> digits_val (10 * acc + d) cs)"

definition decimal :: "string \<Rightarrow> int option" where
  "decimal s =
     (case s of
        [] \<Rightarrow> None
      | c # cs \<Rightarrow>
          if c = CHR ''-'' then (if cs = [] then None else map_option uminus (digits_val 0 cs))
          else if c = CHR ''+'' then (if cs = [] then None else digits_val 0 cs)
          else digits_val 0 (c # cs))"

text \<open>\<open>json.loads\<close> at the bodies of the examples; every other text of the examples is
  not JSON.\<close>

definition sample_loads :: "string \<Rightarrow> pyval option" where
  \<open>sample_loads text =
     (if text = ''[]'' then Some (PList [])
      else if text = ''{"errors": 5}'' then Some (PDict [(''errors'', PInt 5)])
      else if text = ''{"errors":[{"message":"Invalid or expired token."}]}'' then
        Some (PDict [(''errors'', PList [PDict [(''message'', PStr ''Invalid or expired token.'')]])])
      else if text = ''{"statuses":[{"id_str":"5"},{"id_str":"3"}]}'' then
        Some (PDict [(''statuses'', PList [PDict [(''id_str'', PStr ''5'')], PDict [(''id_str'', PStr ''3'')]])])
      else if text = ''{"statuses":[{"id":5}]}'' then
        Some (PDict [(''statuses'', PList [PDict [(''id'', PInt 5)]])])
      else if text = ''{"statuses":[{"id_str":1e999}]}'' then
        Some (PDict [(''statuses'', PList [PDict [(''id_str'', PFloat PosInf)]])])
      else if text = ''{"statuses":[{"id_str":"x"}]}'' then
        Some (PDict [(''statuses'', PList [PDict [(''id_str'', PStr ''x'')]])])
      else if text = ''{"statuses":[{"id_str":"9"},{"id_str":"8"}]}'' then
        Some (PDict [(''statuses'', PList [PDict [(''id_str'', PStr ''9'')], PDict [(''id_str'', PStr ''8'')]])])
      else if text = ''{"statuses":[]}'' then Some (PDict [(''statuses'', PList [])])
      else if text = ''{}'' then Some (PDict [])
      else None)\<close>

text \<open>\<open>parse_qsl\<close> at the token bodies of the examples.\<close>

definition sample_parse_qsl :: "string \<Rightarrow> (string \<times> string) list" where
  "sample_parse_qsl text =
     (if text = ''oauth_token=abc&oauth_token_secret=def'' then
        [(''oauth_token'', ''abc''), (''oauth_token_secret'', ''def'')]
      else [])"

text \<open>\<open>urlencode\<close> of a dictionary whose values are strings without reserved characters.\<close>

fun sample_urlencode :: "params \<Rightarrow> string" where
  "sample_urlencode [] = []"
| "sample_urlencode [(k, v)] = k @ ''='' @ (case v of PStr s \<Rightarrow> s | _ \<Rightarrow> [])"
| "sample_urlencode ((k, v) # kvs) =
     k @ ''='' @ (case v of PStr s \<Rightarrow> s | _ \<Rightarrow> []) @ ''&'' @ sample_urlencode kvs"

text \<open>The sample library, with a server that answers every call with the same response;
  \<open>_transparent_params\<close> leaves parameters that are strings or integers as they are and
  finds no file among them.\<close>

definition lib :: "response \<Rightarrow> env" where
  "lib resp =
     \<lparr> send = (\<lambda>t s method url0 pl. Inr resp),
       decode = utf8_decode,
       loads = sample_loads,
       transparent_params = (\<lambda>ps. (ps, [])),
       parse_qsl = sample_parse_qsl,
       urlencode = sample_urlencode,
       int_of_str = decimal,
       version = ''3.0.0'',
       generator_stop = False \<rparr>"

definition reply :: "int \<Rightarrow> (string \<times> string) list \<Rightarrow> bytes \<Rightarrow> response" where
  "reply status hdrs body =
     \<lparr> status_code = status, headers = map_of hdrs, cookies = [],
       url = ''https://api.twitter.com/1.1/search/tweets.json'', content = body \<rparr>"

definition search_url :: string where
  "search_url = ''https://api.twitter.com/1.1/search/tweets.json''"

text \<open>A search server that looks at \<open>since_id\<close>: without it the page with the ids 5 and
  3, with \<open>since_id=6\<close> the page with the ids 9 and 8, with any other \<open>since_id\<close> a
  page without statuses.\<close>

definition paging_send :: "nat \<Rightarrow> session \<Rightarrow> string \<Rightarrow> string \<Rightarrow> payload \<Rightarrow> pyexc + response" where
  \<open>paging_send t s method url0 pl =
     (case pl of
        Query ps \<Rightarrow>
          (case map_of ps ''since_id'' of
             None \<Rightarrow> Inr (reply 200 [] ''{"statuses":[{"id_str":"5"},{"id_str":"3"}]}'')
           | Some v \<Rightarrow>
               if v = PInt 6 then Inr (reply 200 [] ''{"statuses":[{"id_str":"9"},{"id_str":"8"}]}'')
               else Inr (reply 200 [] ''{"statuses":[]}''))
      | Body ps fs \<Rightarrow> Inl (RequestException ''not a search''))\<close>

definition paging_lib :: env where
  "paging_lib = (lib (reply 200 [] ''{}''))\<lparr>send := paging_send\<rparr>"

definition tweet :: "string \<Rightarrow> pyval" where
  "tweet i = PDict [(''id_str'', PStr i)]"

text \<open>A client constructed with an application key and secret, against the sample library.\<close>

definition sample_client :: "response \<Rightarrow> twython" where
  "sample_client resp = init (lib resp) (Some ''key'') (Some ''secret'') None None None None ''1.1'' True"

section \<open>Notions used in the statements\<close>

text \<open>The values that support \<open>'...' in x\<close>.\<close>

fun is_container :: "pyval \<Rightarrow> bool" where
  "is_container (PStr s) = True"
| "is_container (PList xs) = True"
| "is_container (PDict d) = True"
| "is_container _ = False"

text \<open>
  The bodies the error classifier copes with at a given status: the body is an object and
  its \<open>errors\<close> member (the default list when there is none) is
  \<^item> a non-empty list whose first element is an object with a \<open>message\<close> member, or
  \<^item> anything that is not a non-empty list, which is then the message itself,
  and, unless the status is 429 or 401, the message is a string, a list or an object.
\<close>

definition handled :: "int \<Rightarrow> pyval \<Rightarrow> bool" where
  "handled status body =
     (case body of
        PDict d \<Rightarrow>
          (case (case map_of d ''errors'' of None \<Rightarrow> default_errors | Some e \<Rightarrow> e) of
             PList (PDict m # rest) \<Rightarrow>
               (case map_of m ''message'' of
                  None \<Rightarrow> False
                | Some msg \<Rightarrow> status = 429 \<or> status = 401 \<or> is_container msg)
           | PList (x # rest) \<Rightarrow> False
           | e \<Rightarrow> status = 429 \<or> status = 401 \<or> is_container e)
      | _ \<Rightarrow> False)"

text \<open>The call raised one of the three Twython exceptions.\<close>

definition raises_typed :: "pyexc + pyval \<Rightarrow> bool" where
  "raises_typed r = (case r of Inl e \<Rightarrow> is_twython e | Inr v \<Rightarrow> False)"

text \<open>\<open>int(status['id_str'])\<close>.\<close>

definition id_of :: "env \<Rightarrow> pyval \<Rightarrow> pyexc + int" where
  "id_of env status = (case py_item status ''id_str'' of Inl e \<Rightarrow> Inl e | Inr v \<Rightarrow> py_int env v)"

text \<open>
  A program that makes a sequence of calls of \<open>_request\<close> on one client, going on after a
  call that raised; the calls are numbered from \<open>t\<close>.
\<close>

record api_request =
  rq_url :: string
  rq_method :: string
  rq_params :: "params option"
  rq_api_call :: "string option"

fun calls :: "env \<Rightarrow> nat \<Rightarrow> twython \<Rightarrow> api_request list \<Rightarrow> twython" where
  "calls env t self [] = self"
| "calls env t self (r # rs) =
     calls env (Suc t)
       (snd (request_internal env t self (rq_url r) (rq_method r) (rq_params r) (rq_api_call r))) rs"

text \<open>The response a call records: the one the transport delivered, if its body could be
  decoded.\<close>

definition recorded :: "env \<Rightarrow> nat \<Rightarrow> twython \<Rightarrow> api_request \<Rightarrow> response option" where
  "recorded env t self r =
     (case transmit env t self (rq_url r) (rq_method r) (rq_params r) of
        Inl e \<Rightarrow> None
      | Inr resp \<Rightarrow> (case decode env (content resp) of None \<Rightarrow> None | Some body \<Rightarrow> Some resp))"

text \<open>The response recorded by the last call of the sequence that recorded one, \<open>acc\<close>
  when there is none.\<close>

fun last_recorded ::
  "env \<Rightarrow> nat \<Rightarrow> twython \<Rightarrow> api_request list \<Rightarrow> response option \<Rightarrow> response option"
where
  "last_recorded env t self [] acc = acc"
| "last_recorded env t self (r # rs) acc =
     last_recorded env (Suc t) self rs
       (case recorded env t self r of None \<Rightarrow> acc | Some resp \<Rightarrow> Some resp)"

definition search_request :: api_request where
  "search_request =
     \<lparr> rq_url = search_url, rq_method = ''GET'', rq_params = None, rq_api_call = Some search_url \<rparr>"

section \<open>Facts about the built-in operations\<close>

text \<open>\<open>contains\<close> is the substring relation.\<close>

lemma contains_iff: "contains n s \<longleftrightarrow> (\<exists>pre suf. s = pre @ n @ suf)"
proof (induction s)
  case Nil
  then show ?case by auto
next
  case (Cons c cs)
  show ?case
  proof
    assume "contains n (c # cs)"
    then consider "prefix n (c # cs)" | "contains n cs" by auto
    then show "\<exists>pre suf. c # cs = pre @ n @ suf"
    proof cases
      case 1
      then obtain suf where "c # cs = n @ suf" by (auto simp: prefix_def)
      then have "c # cs = [] @ n @ suf" by simp
      then show ?thesis by blast
    next
      case 2
      with Cons obtain pre suf where "cs = pre @ n @ suf" by auto
      then have "c # cs = (c # pre) @ n @ suf" by simp
      then show ?thesis by blast
    qed
  next
    assume "\<exists>pre suf. c # cs = pre @ n @ suf"
    then obtain pre suf where e: "c # cs = pre @ n @ suf" by blast
    show "contains n (c # cs)"
    proof (cases pre)
      case Nil
      with e have "prefix n (c # cs)" by (auto simp: prefix_def)
      then show ?thesis by simp
    next
      case (Cons a pre')
      with e have "cs = pre' @ n @ suf" by simp
      with Cons.IH have "contains n cs" by blast
      then show ?thesis by simp
    qed
  qed
qed

lemma py_in_container: "(\<exists>b. py_in n v = Inr b) \<longleftrightarrow> is_container v"
  by (cases v) auto

lemma lower_GET: "lower ''GET'' = ''get''"
  by code_simp

lemma dict_set_nonempty: "dict_set d k v \<noteq> []"
  by (cases d) (auto split: if_splits)

lemma dict_set_fresh: "k \<notin> fst ` set d \<Longrightarrow> dict_set d k v = d @ [(k, v)]"
  by (induction d) auto

lemma foldl_dict_set_nonempty:
  "d \<noteq> [] \<Longrightarrow> foldl (\<lambda>d kv. dict_set d (fst kv) (snd kv)) d ps \<noteq> []"
  by (induction ps arbitrary: d) (simp_all add: dict_set_nonempty)

lemma dict_of_empty: "dict_of ps = [] \<longleftrightarrow> ps = []"
proof (cases ps)
  case Nil
  then show ?thesis by (simp add: dict_of_def)
next
  case (Cons kv rest)
  have "foldl (\<lambda>d kv. dict_set d (fst kv) (snd kv)) [kv] rest \<noteq> []"
    by (rule foldl_dict_set_nonempty) simp
  then show ?thesis using Cons by (simp add: dict_of_def)
qed

section \<open>Facts about the sample library\<close>

lemma transmit_lib: "transmit (lib r) t self u m p = Inr r"
  by (simp add: transmit_def lib_def Let_def)

lemma decode_lib: "decode (lib r) = utf8_decode"
  by (simp add: lib_def)

lemma loads_lib: "loads (lib r) = sample_loads"
  by (simp add: lib_def)

lemma reply_simps:
  "status_code (reply c h b) = c" "headers (reply c h b) = map_of h"
  "cookies (reply c h b) = []" "url (reply c h b) = search_url" "content (reply c h b) = b"
  by (simp_all add: reply_def search_url_def)

section \<open>The steps of the request pipeline\<close>

lemma request_internal_no_response:
  "transmit env t self u m p = Inl e \<Longrightarrow> request_internal env t self u m p a = (Inl e, self)"
  by (simp add: request_internal_def)

lemma request_internal_undecodable:
  "transmit env t self u m p = Inr resp \<Longrightarrow> decode env (content resp) = None \<Longrightarrow>
   request_internal env t self u m p a = (Inl UnicodeDecodeError, self)"
  by (simp add: request_internal_def)

lemma request_internal_state:
  assumes "transmit env t self u m p = Inr resp"
    and "decode env (content resp) = Some body"
  shows "snd (request_internal env t self u m p a) =
     self\<lparr>last_call := Some \<lparr> lc_api_call = a,
            lc_api_error = (if status_code resp > 304
                            then (case error_message_of (body_of env body) of
                                    Inl e \<Rightarrow> PNone | Inr msg \<Rightarrow> msg)
                            else PNone),
            lc_cookies = cookies resp, lc_headers = headers resp,
            lc_status_code = status_code resp, lc_url = url resp, lc_content = body \<rparr>\<rparr>"
  using assms by (auto simp: request_internal_def Let_def split: sum.splits)

lemma request_internal_low:
  assumes "transmit env t self u m p = Inr resp"
    and "decode env (content resp) = Some body"
    and "status_code resp \<le> 304"
  shows "fst (request_internal env t self u m p a) =
     (if loads env body = None \<and> status_code resp \<notin> {200, 201, 202} then Inl invalid_json
      else Inr (body_of env body))"
  using assms by (simp add: request_internal_def Let_def)

lemma request_internal_high:
  assumes "transmit env t self u m p = Inr resp"
    and "decode env (content resp) = Some body"
    and "status_code resp > 304"
  shows "fst (request_internal env t self u m p a) =
     (case error_message_of (body_of env body) of
        Inl e \<Rightarrow> Inl e
      | Inr msg \<Rightarrow>
          (case exception_type (status_code resp) msg of
             Inl e \<Rightarrow> Inl e
           | Inr cls \<Rightarrow> Inl (Twython cls (Msg msg) (Some (status_code resp))
                               (headers resp ''retry-after''))))"
  using assms by (simp add: request_internal_def Let_def split: sum.splits)

lemma exception_type_total:
  "status = 429 \<or> status = 401 \<or> is_container msg \<Longrightarrow>
   exception_type status msg =
     Inr (if status = 429 then TwythonRateLimitError
          else if status = 401 \<or> py_in ''Bad Authentication data'' msg = Inr True
               then TwythonAuthError
          else TwythonError)"
  by (cases msg) (auto simp: exception_type_def)

lemma exception_type_scalar:
  "status \<noteq> 429 \<Longrightarrow> status \<noteq> 401 \<Longrightarrow> \<not> is_container msg \<Longrightarrow>
   exception_type status msg = Inl TypeError"
  by (cases msg) (auto simp: exception_type_def)

lemma error_message_handled:
  "handled status body \<Longrightarrow>
   \<exists>msg. error_message_of body = Inr msg \<and> (status = 429 \<or> status = 401 \<or> is_container msg)"
  apply (cases body; simp add: handled_def error_message_of_def)
  apply (auto split: option.splits pyval.splits list.splits simp: default_errors_def)
  done

lemma error_message_unhandled:
  "\<not> handled status body \<Longrightarrow>
     error_message_of body \<in> {Inl AttributeError, Inl KeyError, Inl TypeError}
     \<or> (\<exists>msg. error_message_of body = Inr msg \<and> status \<noteq> 429 \<and> status \<noteq> 401 \<and> \<not> is_container msg)"
  apply (cases body; simp add: handled_def error_message_of_def)
  apply (auto split: option.splits pyval.splits list.splits simp: default_errors_def)
  done

section \<open>The request pipeline: results and errors\<close>

text \<open>
  Claim C3, as the code has it. A response whose body decodes as UTF-8 to a text that is
  not JSON (\<open>json.loads\<close> raises \<open>ValueError\<close> on it) and whose status code is 200, 201
  or 202 makes \<open>_request\<close> return the empty dictionary; no exception is raised. A body
  that is not valid UTF-8 does not reach the parser: the decoding of line 89 stands outside
  the \<open>try\<close> of lines 105-114.
\<close>

theorem request_malformed_json_accepted:
  assumes "transmit env t self u m p = Inr resp"
    and "decode env (content resp) = Some body"
    and "loads env body = None"
    and "status_code resp \<in> {200, 201, 202}"
  shows "fst (request_internal env t self u m p a) = Inr (PDict [])"
  using assms by (auto simp: request_internal_low body_of_def)

text \<open>The scenario of the spec: status 200 with the body \<open>not json\<close>.\<close>

theorem request_malformed_json_accepted_witness:
  "transmit (lib (reply 200 [] ''not json'')) 0 (sample_client (reply 200 [] ''not json''))
       search_url ''GET'' None = Inr (reply 200 [] ''not json'')
   \<and> decode (lib (reply 200 [] ''not json'')) (content (reply 200 [] ''not json'')) = Some ''not json''
   \<and> loads (lib (reply 200 [] ''not json'')) ''not json'' = None
   \<and> status_code (reply 200 [] ''not json'') \<in> {200, 201, 202}
   \<and> fst (request_internal (lib (reply 200 [] ''not json'')) 0
            (sample_client (reply 200 [] ''not json'')) search_url ''GET'' None (Some search_url))
       = Inr (PDict [])"
proof -
  let ?R = "reply 200 [] ''not json''"
  have h1: "transmit (lib ?R) 0 (sample_client ?R) search_url ''GET'' None = Inr ?R"
    by (rule transmit_lib)
  have h2: "decode (lib ?R) (content ?R) = Some ''not json''"
    by (simp add: decode_lib reply_simps utf8_decode_def)
  have h3: "loads (lib ?R) ''not json'' = None"
    by (simp add: loads_lib sample_loads_def)
  have h4: "status_code ?R \<in> {200, 201, 202}"
    by (simp add: reply_simps)
  from request_malformed_json_accepted[OF h1 h2 h3 h4, of "Some search_url"] h1 h2 h3 h4
  show ?thesis by blast
qed

text \<open>Status 200 with the byte \<open>0xFF\<close> as body, which is neither UTF-8 nor JSON: the
  call raises \<open>UnicodeDecodeError\<close> and returns nothing.\<close>

theorem request_malformed_json_counterexample:
  "status_code (reply 200 [] [CHR 0xFF]) \<in> {200, 201, 202}
   \<and> decode (lib (reply 200 [] [CHR 0xFF])) (content (reply 200 [] [CHR 0xFF])) = None
   \<and> fst (request_internal (lib (reply 200 [] [CHR 0xFF])) 0 (sample_client (reply 200 [] [CHR 0xFF]))
            search_url ''GET'' None (Some search_url)) = Inl UnicodeDecodeError"
proof -
  let ?R = "reply 200 [] [CHR 0xFF]"
  have d: "decode (lib ?R) (content ?R) = None"
    by (simp add: decode_lib reply_simps utf8_decode_def)
  have "request_internal (lib ?R) 0 (sample_client ?R) search_url ''GET'' None (Some search_url)
          = (Inl UnicodeDecodeError, sample_client ?R)"
    by (rule request_internal_undecodable[OF transmit_lib d])
  with d show ?thesis by (simp add: reply_simps)
qed

text \<open>
  Claim C2, as the code has it. For a response with a status code of at most 304 whose body
  decodes, \<open>_request\<close> returns the parsed body when the body is JSON, returns the empty
  dictionary when it is not and the status is 200, 201 or 202, and raises \<open>TwythonError\<close>
  ("Response was not valid JSON, unable to decode.") when it is not and the status is any
  other one.
\<close>

theorem request_low_status_result:
  assumes "transmit env t self u m p = Inr resp"
    and "decode env (content resp) = Some body"
    and "status_code resp \<le> 304"
  shows "fst (request_internal env t self u m p a) =
     (case loads env body of
        Some v \<Rightarrow> Inr v
      | None \<Rightarrow> if status_code resp \<in> {200, 201, 202} then Inr (PDict []) else Inl invalid_json)"
  using assms by (auto simp: request_internal_low body_of_def split: option.splits)

theorem request_low_status_result_witness:
  "transmit (lib (reply 200 [] ''{}'')) 0 (sample_client (reply 200 [] ''{}''))
       search_url ''GET'' None = Inr (reply 200 [] ''{}'')
   \<and> decode (lib (reply 200 [] ''{}'')) (content (reply 200 [] ''{}'')) = Some ''{}''
   \<and> status_code (reply 200 [] ''{}'') \<le> 304
   \<and> fst (request_internal (lib (reply 200 [] ''{}'')) 0
            (sample_client (reply 200 [] ''{}'')) search_url ''GET'' None (Some search_url))
       = Inr (PDict [])"
proof -
  let ?R = "reply 200 [] ''{}''"
  have h1: "transmit (lib ?R) 0 (sample_client ?R) search_url ''GET'' None = Inr ?R"
    by (rule transmit_lib)
  have h2: "decode (lib ?R) (content ?R) = Some ''{}''"
    by (simp add: decode_lib reply_simps utf8_decode_def)
  have h3: "status_code ?R \<le> 304"
    by (simp add: reply_simps)
  have "loads (lib ?R) ''{}'' = Some (PDict [])"
    by (simp add: loads_lib sample_loads_def)
  with request_low_status_result[OF h1 h2 h3, of "Some search_url"] h1 h2 h3
  show ?thesis by simp
qed

text \<open>Status 204 with an empty body: the status is below 304 and the call raises.\<close>

theorem request_low_status_counterexample:
  "status_code (reply 204 [] '''') \<le> 304
   \<and> fst (request_internal (lib (reply 204 [] '''')) 0 (sample_client (reply 204 [] ''''))
            search_url ''GET'' None (Some search_url))
       = Inl (Twython TwythonError
                (Msg (PStr ''Response was not valid JSON, unable to decode.'')) None None)"
proof -
  let ?R = "reply 204 [] ''''"
  have h1: "transmit (lib ?R) 0 (sample_client ?R) search_url ''GET'' None = Inr ?R"
    by (rule transmit_lib)
  have h2: "decode (lib ?R) (content ?R) = Some ''''"
    by (simp add: decode_lib reply_simps utf8_decode_def)
  have h3: "status_code ?R \<le> 304"
    by (simp add: reply_simps)
  have h4: "loads (lib ?R) '''' = None"
    by (simp add: loads_lib sample_loads_def)
  show ?thesis
    using h3 h4 by (simp add: request_internal_low[OF h1 h2 h3] reply_simps invalid_json_def)
qed

text \<open>
  Claim C1, as the code has it. For a response with a status code above 304 from whose
  decoded body lines 118-123 extract an error message \<open>msg\<close>, and, when the status is
  neither 429 nor 401, whose message supports the test \<open>'Bad Authentication data' in msg\<close>
  (a string, a list or an object), \<open>_request\<close> raises: \<open>TwythonRateLimitError\<close> for
  429; otherwise \<open>TwythonAuthError\<close> for 401 or for a message that contains
  "Bad Authentication data"; otherwise \<open>TwythonError\<close>. The exception is constructed with
  the message, the status code and the value of the \<open>retry-after\<close> header, \<open>None\<close>
  when the header is absent.
\<close>

theorem request_error_classification:
  assumes "transmit env t self u m p = Inr resp"
    and "decode env (content resp) = Some body"
    and "status_code resp > 304"
    and "error_message_of (body_of env body) = Inr msg"
    and "status_code resp = 429 \<or> status_code resp = 401 \<or> is_container msg"
  shows "fst (request_internal env t self u m p a) =
     Inl (Twython (if status_code resp = 429 then TwythonRateLimitError
                   else if status_code resp = 401 \<or> py_in ''Bad Authentication data'' msg = Inr True
                        then TwythonAuthError
                   else TwythonError)
            (Msg msg) (Some (status_code resp)) (headers resp ''retry-after''))"
  using assms(4) exception_type_total[OF assms(5)]
  by (simp add: request_internal_high[OF assms(1-3)])

text \<open>The scenario of the spec: status 401 with the message "Invalid or expired token.".\<close>

theorem request_error_classification_witness:
  \<open>transmit (lib (reply 401 [] ''{"errors":[{"message":"Invalid or expired token."}]}'')) 0
       (sample_client (reply 401 [] ''{"errors":[{"message":"Invalid or expired token."}]}''))
       search_url ''GET'' None
     = Inr (reply 401 [] ''{"errors":[{"message":"Invalid or expired token."}]}'')
   \<and> decode (lib (reply 401 [] ''{"errors":[{"message":"Invalid or expired token."}]}''))
        (content (reply 401 [] ''{"errors":[{"message":"Invalid or expired token."}]}''))
     = Some ''{"errors":[{"message":"Invalid or expired token."}]}''
   \<and> status_code (reply 401 [] ''{"errors":[{"message":"Invalid or expired token."}]}'') > 304
   \<and> error_message_of (body_of (lib (reply 401 [] ''{"errors":[{"message":"Invalid or expired token."}]}''))
          ''{"errors":[{"message":"Invalid or expired token."}]}'')
     = Inr (PStr ''Invalid or expired token.'')
   \<and> fst (request_internal (lib (reply 401 [] ''{"errors":[{"message":"Invalid or expired token."}]}'')) 0
            (sample_client (reply 401 [] ''{"errors":[{"message":"Invalid or expired token."}]}''))
            search_url ''GET'' None (Some search_url))
     = Inl (Twython TwythonAuthError (Msg (PStr ''Invalid or expired token.'')) (Some 401) None)\<close>
proof -
  let ?B = \<open>''{"errors":[{"message":"Invalid or expired token."}]}''\<close>
  let ?R = "reply 401 [] ?B"
  have h1: "transmit (lib ?R) 0 (sample_client ?R) search_url ''GET'' None = Inr ?R"
    by (rule transmit_lib)
  have h2: "decode (lib ?R) (content ?R) = Some ?B"
    by (simp add: decode_lib reply_simps utf8_decode_def)
  have h3: "status_code ?R > 304"
    by (simp add: reply_simps)
  have h4: "error_message_of (body_of (lib ?R) ?B) = Inr (PStr ''Invalid or expired token.'')"
    by (simp add: body_of_def loads_lib sample_loads_def error_message_of_def)
  have h5: "status_code ?R = 429 \<or> status_code ?R = 401 \<or> is_container (PStr ''Invalid or expired token.'')"
    by simp
  from request_error_classification[OF h1 h2 h3 h4 h5, of "Some search_url"] h1 h2 h3 h4
  show ?thesis by (simp add: reply_simps)
qed

text \<open>Status 500 with the JSON array \<open>[]\<close> as body: \<open>content.get\<close> raises
  \<open>AttributeError\<close>, which is none of the typed errors.\<close>

theorem request_error_untyped_counterexample:
  "status_code (reply 500 [] ''[]'') > 304
   \<and> fst (request_internal (lib (reply 500 [] ''[]'')) 0 (sample_client (reply 500 [] ''[]''))
            search_url ''GET'' None (Some search_url)) = Inl AttributeError"
proof -
  let ?R = "reply 500 [] ''[]''"
  have h1: "transmit (lib ?R) 0 (sample_client ?R) search_url ''GET'' None = Inr ?R"
    by (rule transmit_lib)
  have h2: "decode (lib ?R) (content ?R) = Some ''[]''"
    by (simp add: decode_lib reply_simps utf8_decode_def)
  have h3: "status_code ?R > 304"
    by (simp add: reply_simps)
  have h4: "error_message_of (body_of (lib ?R) ''[]'') = Inl AttributeError"
    by (simp add: body_of_def loads_lib sample_loads_def error_message_of_def)
  show ?thesis
    using h3 by (simp add: request_internal_high[OF h1 h2 h3] h4)
qed

text \<open>
  Claim C5, as the code has it. For a response with a status code above 304 whose body
  decodes, the classification ends in one of the three typed errors when the parsed body
  is an object whose \<open>errors\<close> member is absent, is a non-empty list starting with an
  object that has a \<open>message\<close>, or is anything but a non-empty list, provided the message
  is a string, a list or an object or the status is 429 or 401 (\<open>handled\<close>); a body that
  is not JSON is among these. For every other body the call ends in \<open>AttributeError\<close>,
  \<open>KeyError\<close> or \<open>TypeError\<close>.
\<close>

theorem request_error_shapes:
  assumes "transmit env t self u m p = Inr resp"
    and "decode env (content resp) = Some body"
    and "status_code resp > 304"
  shows "(handled (status_code resp) (body_of env body) \<longrightarrow>
            raises_typed (fst (request_internal env t self u m p a)))
       \<and> (\<not> handled (status_code resp) (body_of env body) \<longrightarrow>
            fst (request_internal env t self u m p a)
              \<in> {Inl AttributeError, Inl KeyError, Inl TypeError})
       \<and> (loads env body = None \<longrightarrow> handled (status_code resp) (body_of env body))"
proof (intro conjI impI)
  assume "handled (status_code resp) (body_of env body)"
  from error_message_handled[OF this] obtain msg where
    m: "error_message_of (body_of env body) = Inr msg"
       "status_code resp = 429 \<or> status_code resp = 401 \<or> is_container msg" by blast
  show "raises_typed (fst (request_internal env t self u m p a))"
    using m(1) exception_type_total[OF m(2)]
    by (simp add: request_internal_high[OF assms] raises_typed_def)
next
  assume "\<not> handled (status_code resp) (body_of env body)"
  from error_message_unhandled[OF this]
  show "fst (request_internal env t self u m p a) \<in> {Inl AttributeError, Inl KeyError, Inl TypeError}"
  proof
    assume "error_message_of (body_of env body) \<in> {Inl AttributeError, Inl KeyError, Inl TypeError}"
    then show ?thesis by (auto simp: request_internal_high[OF assms])
  next
    assume "\<exists>msg. error_message_of (body_of env body) = Inr msg \<and>
       status_code resp \<noteq> 429 \<and> status_code resp \<noteq> 401 \<and> \<not> is_container msg"
    then obtain msg where m: "error_message_of (body_of env body) = Inr msg"
       "status_code resp \<noteq> 429" "status_code resp \<noteq> 401" "\<not> is_container msg" by blast
    show ?thesis
      using m(1) exception_type_scalar[OF m(2,3,4)]
      by (simp add: request_internal_high[OF assms])
  qed
next
  assume "loads env body = None"
  then show "handled (status_code resp) (body_of env body)"
    by (simp add: body_of_def handled_def default_errors_def)
qed

text \<open>Status 429 with a scalar \<open>errors\<close> member and a \<open>retry-after\<close> header: the
  substring test is not reached and the rate limit error carries the scalar.\<close>

theorem request_error_shapes_witness:
  \<open>transmit (lib (reply 429 [(''retry-after'', ''30'')] ''{"errors": 5}'')) 0
       (sample_client (reply 429 [(''retry-after'', ''30'')] ''{"errors": 5}'')) search_url ''GET'' None
     = Inr (reply 429 [(''retry-after'', ''30'')] ''{"errors": 5}'')
   \<and> decode (lib (reply 429 [(''retry-after'', ''30'')] ''{"errors": 5}''))
        (content (reply 429 [(''retry-after'', ''30'')] ''{"errors": 5}'')) = Some ''{"errors": 5}''
   \<and> status_code (reply 429 [(''retry-after'', ''30'')] ''{"errors": 5}'') > 304
   \<and> handled 429 (body_of (lib (reply 429 [(''retry-after'', ''30'')] ''{"errors": 5}'')) ''{"errors": 5}'')
   \<and> raises_typed (fst (request_internal (lib (reply 429 [(''retry-after'', ''30'')] ''{"errors": 5}'')) 0
         (sample_client (reply 429 [(''retry-after'', ''30'')] ''{"errors": 5}''))
         search_url ''GET'' None (Some search_url)))
   \<and> fst (request_internal (lib (reply 429 [(''retry-after'', ''30'')] ''{"errors": 5}'')) 0
         (sample_client (reply 429 [(''retry-after'', ''30'')] ''{"errors": 5}''))
         search_url ''GET'' None (Some search_url))
     = Inl (Twython TwythonRateLimitError (Msg (PInt 5)) (Some 429) (Some ''30''))\<close>
proof -
  let ?B = \<open>''{"errors": 5}''\<close>
  let ?R = "reply 429 [(''retry-after'', ''30'')] ?B"
  have h1: "transmit (lib ?R) 0 (sample_client ?R) search_url ''GET'' None = Inr ?R"
    by (rule transmit_lib)
  have h2: "decode (lib ?R) (content ?R) = Some ?B"
    by (simp add: decode_lib reply_simps utf8_decode_def)
  have h3: "status_code ?R > 304"
    by (simp add: reply_simps)
  have b: "body_of (lib ?R) ?B = PDict [(''errors'', PInt 5)]"
    by (simp add: body_of_def loads_lib sample_loads_def)
  have h4: "handled 429 (body_of (lib ?R) ?B)"
    by (simp add: b handled_def)
  have h4': "handled (status_code ?R) (body_of (lib ?R) ?B)"
    using h4 by (simp add: reply_simps)
  have v: "fst (request_internal (lib ?R) 0 (sample_client ?R) search_url ''GET'' None (Some search_url))
     = Inl (Twython TwythonRateLimitError (Msg (PInt 5)) (Some 429) (Some ''30''))"
    by (simp add: request_internal_high[OF h1 h2 h3] b error_message_of_def exception_type_def reply_simps)
  from request_error_shapes[OF h1 h2 h3, of "Some search_url"] h4'
  have "raises_typed (fst (request_internal (lib ?R) 0 (sample_client ?R) search_url ''GET'' None (Some search_url)))"
    by blast
  with h1 h2 h3 h4 v show ?thesis by blast
qed

text \<open>Status 500 with the scalar \<open>errors\<close> member 5: the message is the integer, and the
  substring test on it raises \<open>TypeError\<close>.\<close>

theorem request_scalar_errors_counterexample:
  \<open>status_code (reply 500 [] ''{"errors": 5}'') > 304
   \<and> loads (lib (reply 500 [] ''{"errors": 5}'')) ''{"errors": 5}'' = Some (PDict [(''errors'', PInt 5)])
   \<and> fst (request_internal (lib (reply 500 [] ''{"errors": 5}'')) 0
            (sample_client (reply 500 [] ''{"errors": 5}'')) search_url ''GET'' None (Some search_url))
     = Inl TypeError
   \<and> \<not> is_twython TypeError\<close>
proof -
  let ?B = \<open>''{"errors": 5}''\<close>
  let ?R = "reply 500 [] ?B"
  have h1: "transmit (lib ?R) 0 (sample_client ?R) search_url ''GET'' None = Inr ?R"
    by (rule transmit_lib)
  have h2: "decode (lib ?R) (content ?R) = Some ?B"
    by (simp add: decode_lib reply_simps utf8_decode_def)
  have h3: "status_code ?R > 304"
    by (simp add: reply_simps)
  have l: "loads (lib ?R) ?B = Some (PDict [(''errors'', PInt 5)])"
    by (simp add: loads_lib sample_loads_def)
  have v: "fst (request_internal (lib ?R) 0 (sample_client ?R) search_url ''GET'' None (Some search_url))
     = Inl TypeError"
    by (simp add: request_internal_high[OF h1 h2 h3] body_of_def l error_message_of_def
        exception_type_def reply_simps)
  from h3 l v show ?thesis by simp
qed

lemma exception_type_error: "exception_type status msg = Inl e \<Longrightarrow> e = TypeError"
  by (cases msg) (auto simp: exception_type_def split: if_splits)

lemma error_message_of_error:
  "error_message_of b = Inl e \<Longrightarrow> e = AttributeError \<or> e = KeyError \<or> e = TypeError"
  using error_message_handled[of 0 b] error_message_unhandled[of 0 b]
  by (cases "handled 0 b") auto

section \<open>The record of the last call\<close>

text \<open>
  Claim C9, as the code has it. Every call of \<open>_request\<close> that receives a response whose
  body decodes overwrites the last-call record with the endpoint identifier, the cookies,
  the headers, the status code, the resolved URL and the decoded text of that response.
  The error field holds the extracted error message when the status is above 304 and the
  extraction of lines 118-123 completed; it is \<open>None\<close> otherwise: when the call returns,
  and also when it fails with the invalid-JSON error at a status of at most 304.
\<close>

theorem request_last_call_record:
  assumes "transmit env t self u m p = Inr resp"
    and "decode env (content resp) = Some body"
  shows "last_call (snd (request_internal env t self u m p a)) =
     Some \<lparr> lc_api_call = a,
            lc_api_error = (if status_code resp > 304
                            then (case error_message_of (body_of env body) of
                                    Inl e \<Rightarrow> PNone | Inr msg \<Rightarrow> msg)
                            else PNone),
            lc_cookies = cookies resp, lc_headers = headers resp,
            lc_status_code = status_code resp, lc_url = url resp, lc_content = body \<rparr>
     \<and> (\<forall>v. fst (request_internal env t self u m p a) = Inr v \<longrightarrow>
            map_option lc_api_error (last_call (snd (request_internal env t self u m p a))) = Some PNone)
     \<and> (\<forall>cls msg code ra.
            fst (request_internal env t self u m p a) = Inl (Twython cls (Msg msg) (Some code) ra) \<longrightarrow>
            map_option lc_api_error (last_call (snd (request_internal env t self u m p a))) = Some msg)"
proof (intro conjI allI impI)
  show "last_call (snd (request_internal env t self u m p a)) =
     Some \<lparr> lc_api_call = a,
            lc_api_error = (if status_code resp > 304
                            then (case error_message_of (body_of env body) of
                                    Inl e \<Rightarrow> PNone | Inr msg \<Rightarrow> msg)
                            else PNone),
            lc_cookies = cookies resp, lc_headers = headers resp,
            lc_status_code = status_code resp, lc_url = url resp, lc_content = body \<rparr>"
    by (simp add: request_internal_state[OF assms])
next
  fix v assume ok: "fst (request_internal env t self u m p a) = Inr v"
  have "\<not> status_code resp > 304"
  proof
    assume h: "status_code resp > 304"
    from ok show False
      by (simp add: request_internal_high[OF assms h] split: sum.splits)
  qed
  then show "map_option lc_api_error (last_call (snd (request_internal env t self u m p a))) = Some PNone"
    by (simp add: request_internal_state[OF assms])
next
  fix cls msg code ra
  assume f: "fst (request_internal env t self u m p a) = Inl (Twython cls (Msg msg) (Some code) ra)"
  have h: "status_code resp > 304"
  proof (rule ccontr)
    assume "\<not> status_code resp > 304"
    then have l: "status_code resp \<le> 304" by simp
    from f show False
      by (simp add: request_internal_low[OF assms l] invalid_json_def split: if_splits)
  qed
  from f have "error_message_of (body_of env body) = Inr msg"
    by (auto simp: request_internal_high[OF assms h] split: sum.splits
        dest: error_message_of_error exception_type_error)
  then show "map_option lc_api_error (last_call (snd (request_internal env t self u m p a))) = Some msg"
    using h by (simp add: request_internal_state[OF assms])
qed

text \<open>Status 429 with a body that is not JSON and a \<open>retry-after\<close> header: the call
  fails with the default message, and the record holds that message.\<close>

theorem request_last_call_record_witness:
  "transmit (lib (reply 429 [(''retry-after'', ''30'')] ''not json'')) 0
       (sample_client (reply 429 [(''retry-after'', ''30'')] ''not json'')) search_url ''GET'' None
     = Inr (reply 429 [(''retry-after'', ''30'')] ''not json'')
   \<and> decode (lib (reply 429 [(''retry-after'', ''30'')] ''not json''))
        (content (reply 429 [(''retry-after'', ''30'')] ''not json'')) = Some ''not json''
   \<and> fst (request_internal (lib (reply 429 [(''retry-after'', ''30'')] ''not json'')) 0
         (sample_client (reply 429 [(''retry-after'', ''30'')] ''not json''))
         search_url ''GET'' None (Some search_url))
     = Inl (Twython TwythonRateLimitError (Msg (PStr ''An error occurred processing your request.''))
              (Some 429) (Some ''30''))
   \<and> last_call (snd (request_internal (lib (reply 429 [(''retry-after'', ''30'')] ''not json'')) 0
         (sample_client (reply 429 [(''retry-after'', ''30'')] ''not json''))
         search_url ''GET'' None (Some search_url)))
     = Some \<lparr> lc_api_call = Some search_url,
              lc_api_error = PStr ''An error occurred processing your request.'',
              lc_cookies = [], lc_headers = map_of [(''retry-after'', ''30'')],
              lc_status_code = 429, lc_url = search_url, lc_content = ''not json'' \<rparr>"
proof -
  let ?R = "reply 429 [(''retry-after'', ''30'')] ''not json''"
  have h1: "transmit (lib ?R) 0 (sample_client ?R) search_url ''GET'' None = Inr ?R"
    by (rule transmit_lib)
  have h2: "decode (lib ?R) (content ?R) = Some ''not json''"
    by (simp add: decode_lib reply_simps utf8_decode_def)
  have h3: "status_code ?R > 304"
    by (simp add: reply_simps)
  have b: "body_of (lib ?R) ''not json'' = PDict []"
    by (simp add: body_of_def loads_lib sample_loads_def)
  have m: "error_message_of (PDict []) = Inr (PStr ''An error occurred processing your request.'')"
    by (simp add: error_message_of_def default_errors_def)
  have v: "fst (request_internal (lib ?R) 0 (sample_client ?R) search_url ''GET'' None (Some search_url))
     = Inl (Twython TwythonRateLimitError (Msg (PStr ''An error occurred processing your request.''))
              (Some 429) (Some ''30''))"
    by (simp add: request_internal_high[OF h1 h2 h3] b m exception_type_def reply_simps)
  from request_last_call_record[OF h1 h2, of "Some search_url"]
  have "last_call (snd (request_internal (lib ?R) 0 (sample_client ?R) search_url ''GET'' None (Some search_url)))
     = Some \<lparr> lc_api_call = Some search_url,
              lc_api_error = PStr ''An error occurred processing your request.'',
              lc_cookies = [], lc_headers = map_of [(''retry-after'', ''30'')],
              lc_status_code = 429, lc_url = search_url, lc_content = ''not json'' \<rparr>"
    by (simp add: b m reply_simps)
  with h1 h2 v show ?thesis by blast
qed

text \<open>Status 304 with an empty body: the call fails with the invalid-JSON error and the
  error field of the record is \<open>None\<close>.\<close>

theorem request_last_call_record_counterexample:
  "fst (request_internal (lib (reply 304 [] '''')) 0 (sample_client (reply 304 [] ''''))
          search_url ''GET'' None (Some search_url))
     = Inl (Twython TwythonError
              (Msg (PStr ''Response was not valid JSON, unable to decode.'')) None None)
   \<and> map_option lc_api_error
        (last_call (snd (request_internal (lib (reply 304 [] '''')) 0 (sample_client (reply 304 [] ''''))
           search_url ''GET'' None (Some search_url)))) = Some PNone"
proof -
  let ?R = "reply 304 [] ''''"
  have h1: "transmit (lib ?R) 0 (sample_client ?R) search_url ''GET'' None = Inr ?R"
    by (rule transmit_lib)
  have h2: "decode (lib ?R) (content ?R) = Some ''''"
    by (simp add: decode_lib reply_simps utf8_decode_def)
  have h3: "status_code ?R \<le> 304"
    by (simp add: reply_simps)
  have h4: "loads (lib ?R) '''' = None"
    by (simp add: loads_lib sample_loads_def)
  show ?thesis
    using h4
    by (simp add: request_internal_low[OF h1 h2 h3] request_internal_state[OF h1 h2]
        reply_simps invalid_json_def)
qed

section \<open>The header of the last call, after a sequence of calls\<close>

lemma transmit_client:
  "client self' = client self \<Longrightarrow> transmit env t self' u m p = transmit env t self u m p"
  by (simp add: transmit_def Let_def split: prod.splits)

lemma request_internal_client:
  "client (snd (request_internal env t self u m p a)) = client self"
proof (cases "transmit env t self u m p")
  case (Inl e)
  then show ?thesis by (simp add: request_internal_no_response)
next
  case (Inr resp)
  then show ?thesis
    by (cases "decode env (content resp)")
       (simp_all add: request_internal_undecodable request_internal_state)
qed

lemma request_internal_headers:
  "map_option lc_headers
     (last_call (snd (request_internal env t self (rq_url r) (rq_method r) (rq_params r) a))) =
     (case recorded env t self r of
        None \<Rightarrow> map_option lc_headers (last_call self)
      | Some resp \<Rightarrow> Some (headers resp))"
proof (cases "transmit env t self (rq_url r) (rq_method r) (rq_params r)")
  case (Inl e)
  then show ?thesis by (simp add: request_internal_no_response recorded_def)
next
  case (Inr resp)
  then show ?thesis
    by (cases "decode env (content resp)")
       (simp_all add: request_internal_undecodable request_internal_state recorded_def)
qed

lemma recorded_client:
  "client self' = client self \<Longrightarrow> recorded env t self' r = recorded env t self r"
  using transmit_client[of self' self env t] by (simp add: recorded_def)

lemma last_recorded_client:
  "client self' = client self \<Longrightarrow>
   last_recorded env t self' rs acc = last_recorded env t self rs acc"
  using recorded_client[of self' self env] by (induction rs arbitrary: t acc) simp_all

lemma last_recorded_acc:
  "last_recorded env t self rs (Some x) =
     (case last_recorded env t self rs None of None \<Rightarrow> Some x | Some y \<Rightarrow> Some y)"
  by (induction rs arbitrary: t x) (auto split: option.splits)

lemma calls_headers:
  "map_option lc_headers (last_call (calls env t self rs)) =
     (case last_recorded env t self rs None of
        None \<Rightarrow> map_option lc_headers (last_call self)
      | Some resp \<Rightarrow> Some (headers resp))"
proof (induction rs arbitrary: t self)
  case Nil
  then show ?case by simp
next
  case (Cons r rs)
  define s' where
    "s' = snd (request_internal env t self (rq_url r) (rq_method r) (rq_params r) (rq_api_call r))"
  have step: "calls env t self (r # rs) = calls env (Suc t) s' rs"
    by (simp add: s'_def)
  have c: "client s' = client self"
    unfolding s'_def by (rule request_internal_client)
  have ih: "map_option lc_headers (last_call (calls env (Suc t) s' rs)) =
        (case last_recorded env (Suc t) s' rs None of
           None \<Rightarrow> map_option lc_headers (last_call s')
         | Some resp \<Rightarrow> Some (headers resp))"
    by (rule Cons.IH)
  have lr: "last_recorded env (Suc t) s' rs None = last_recorded env (Suc t) self rs None"
    by (rule last_recorded_client[OF c])
  have hd: "map_option lc_headers (last_call s') =
     (case recorded env t self r of
        None \<Rightarrow> map_option lc_headers (last_call self)
      | Some resp \<Rightarrow> Some (headers resp))"
    unfolding s'_def by (rule request_internal_headers)
  show ?case
  proof (cases "recorded env t self r")
    case None
    then show ?thesis
      unfolding step ih lr hd by (simp split: option.splits)
  next
    case (Some x)
    then show ?thesis
      unfolding step ih lr hd by (simp add: last_recorded_acc split: option.splits)
  qed
qed

lemma header_lookup:
  "get_lastfunction_header self name =
     (case map_option lc_headers (last_call self) of
        None \<Rightarrow> Inl no_call_yet
      | Some h \<Rightarrow> Inr (h name))"
  by (auto simp: get_lastfunction_header_def split: option.splits)

lemma init_last_call: "last_call (init env k s tk tks h px v ssl) = None"
  by (simp add: init_def Let_def)

text \<open>
  Claim C6, as the code has it. On a client that has made any sequence of calls of
  \<open>_request\<close> since its construction, \<open>get_lastfunction_header(name)\<close> raises
  \<open>TwythonError\<close> exactly when no call of the sequence has recorded a response: none was
  made, or each one failed before \<open>self._last_call\<close> was assigned (the transport raised,
  or the body was not valid UTF-8). Once a call has recorded a response it does not raise:
  it returns the value of the named header in the response recorded last, and \<open>None\<close>
  when that response has no such header.
\<close>

theorem lastfunction_header_after_calls:
  "get_lastfunction_header (calls env t (init env k s tk tks h px v ssl) rs) name =
     (case last_recorded env t (init env k s tk tks h px v ssl) rs None of
        None \<Rightarrow> Inl no_call_yet
      | Some resp \<Rightarrow> Inr (headers resp name))"
  by (simp add: header_lookup calls_headers init_last_call split: option.splits)

text \<open>Two calls answered with a rate limit header: the header is returned, a header that
  is absent gives \<open>None\<close>.\<close>

theorem lastfunction_header_after_calls_witness:
  "get_lastfunction_header
     (calls (lib (reply 200 [(''x-rate-limit-remaining'', ''14'')] ''{}'')) 0
        (init (lib (reply 200 [(''x-rate-limit-remaining'', ''14'')] ''{}''))
           (Some ''key'') (Some ''secret'') None None None None ''1.1'' True)
        [search_request, search_request]) ''x-rate-limit-remaining'' = Inr (Some ''14'')
   \<and> get_lastfunction_header
     (calls (lib (reply 200 [(''x-rate-limit-remaining'', ''14'')] ''{}'')) 0
        (init (lib (reply 200 [(''x-rate-limit-remaining'', ''14'')] ''{}''))
           (Some ''key'') (Some ''secret'') None None None None ''1.1'' True)
        [search_request, search_request]) ''x-rate-limit-reset'' = Inr None"
proof -
  let ?R = "reply 200 [(''x-rate-limit-remaining'', ''14'')] ''{}''"
  have r: "recorded (lib ?R) t self search_request = Some ?R" for t self
    by (simp add: recorded_def transmit_lib decode_lib reply_simps utf8_decode_def)
  have l: "last_recorded (lib ?R) 0 self [search_request, search_request] None = Some ?R" for self
    by (simp add: r)
  have a: "get_lastfunction_header
       (calls (lib ?R) 0
          (init (lib ?R) (Some ''key'') (Some ''secret'') None None None None ''1.1'' True)
          [search_request, search_request]) n = Inr (headers ?R n)" for n
    by (simp only: lastfunction_header_after_calls l option.case)
  show ?thesis
    unfolding a by (simp add: reply_simps)
qed

text \<open>One call whose response body is the byte \<open>0xFF\<close>, which is not UTF-8: the call has
  been made and the function still raises.\<close>

theorem lastfunction_header_counterexample:
  "[search_request] \<noteq> []
   \<and> get_lastfunction_header
       (calls (lib (reply 200 [(''x-rate-limit-remaining'', ''14'')] [CHR 0xFF])) 0
          (init (lib (reply 200 [(''x-rate-limit-remaining'', ''14'')] [CHR 0xFF]))
             (Some ''key'') (Some ''secret'') None None None None ''1.1'' True)
          [search_request]) ''x-rate-limit-remaining''
     = Inl (Twython TwythonError
              (Msg (PStr ''This function must be called after an API call.  It delivers header information.''))
              None None)"
proof -
  let ?R = "reply 200 [(''x-rate-limit-remaining'', ''14'')] [CHR 0xFF]"
  have d: "decode (lib ?R) (content ?R) = None"
    by (simp add: decode_lib reply_simps utf8_decode_def)
  have "request_internal (lib ?R) 0 self search_url ''GET'' None (Some search_url)
          = (Inl UnicodeDecodeError, self)" for self
    by (rule request_internal_undecodable[OF transmit_lib d])
  then show ?thesis
    by (simp add: search_request_def get_lastfunction_header_def init_last_call no_call_yet_def)
qed

section \<open>The signing mode\<close>

text \<open>
  Claim C8. The signer chosen by the constructor is a function of the four credentials:
  application-only signing exactly when the key and the secret are given and both user
  tokens are absent; user-context signing exactly when all four are given; and no signing
  (\<open>auth\<close> is \<open>None\<close>) in every other case, such as a key without a secret or one user
  token without the other.
\<close>

theorem init_signing_mode:
  "(auth (client (init env k s tk tks h px v ssl)) = Some (OAuth1 k' s' None None)
      \<longleftrightarrow> k = Some k' \<and> s = Some s' \<and> tk = None \<and> tks = None)
   \<and> (auth (client (init env k s tk tks h px v ssl)) = Some (OAuth1 k' s' (Some tk') (Some tks'))
      \<longleftrightarrow> k = Some k' \<and> s = Some s' \<and> tk = Some tk' \<and> tks = Some tks')
   \<and> (auth (client (init env k s tk tks h px v ssl)) = None
      \<longleftrightarrow> \<not> (k \<noteq> None \<and> s \<noteq> None \<and> tk = None \<and> tks = None)
        \<and> \<not> (k \<noteq> None \<and> s \<noteq> None \<and> tk \<noteq> None \<and> tks \<noteq> None))"
  by (cases k; cases s; cases tk; cases tks) (simp_all add: init_def Let_def)

text \<open>A key and a secret with only one of the two user tokens: the requests are unsigned.\<close>

theorem init_signing_mode_witness:
  "auth (client (init (lib (reply 200 [] ''{}'')) (Some ''key'') (Some ''secret'') (Some ''token'') None
           None None ''1.1'' True)) = None
   \<and> auth (client (init (lib (reply 200 [] ''{}'')) (Some ''key'') None None None
           None None ''1.1'' True)) = None
   \<and> auth (client (init (lib (reply 200 [] ''{}'')) (Some ''key'') (Some ''secret'') None None
           None None ''1.1'' True)) = Some (OAuth1 ''key'' ''secret'' None None)"
  using init_signing_mode[of "lib (reply 200 [] ''{}'')" "Some ''key''" "Some ''secret''" "Some ''token''" None
          None None "''1.1''" True]
        init_signing_mode[of "lib (reply 200 [] ''{}'')" "Some ''key''" None None None
          None None "''1.1''" True]
        init_signing_mode[of "lib (reply 200 [] ''{}'')" "Some ''key''" "Some ''secret''" None None
          None None "''1.1''" True "''key''" "''secret''"]
  by simp

section \<open>The authorization flow\<close>

lemma send_lib: "send (lib r) t s m u pl = Inr r"
  by (simp add: lib_def)

lemma parse_qsl_lib: "parse_qsl (lib r) = sample_parse_qsl"
  by (simp add: lib_def)

lemma init_callback_url: "callback_url (init env k s tk tks h px v ssl) = None"
  by (simp add: init_def Let_def)

lemma authentication_tokens_status:
  assumes "(if truthy_opt cb then Inr cb else read_callback_url self) = Inr cb1"
    and "send env t (client self) ''get'' (request_token_url self)
           (Query (if truthy_opt cb1 then [(''oauth_callback'', opt_val cb1)] else [])) = Inr resp"
    and "status_code resp \<noteq> 200"
  shows "get_authentication_tokens env t self cb fl sn =
     Inl (Twython (if status_code resp = 401 then TwythonAuthError else TwythonError)
            (MsgBytes (content resp)) (Some (status_code resp)) None)"
  using assms by (simp add: get_authentication_tokens_def Let_def)

text \<open>
  Claim C10, as the code has it. \<open>get_authorized_tokens\<close> does not look at the status code
  of the response: whatever the code, when the body decodes as UTF-8, the tokens parsed from
  it are returned if there is at least one, and the call fails with the generic
  \<open>TwythonError\<close> ("Unable to decode authorized tokens.") exactly when the parsed mapping is
  empty. With the same response at a status other than 200, \<open>get_authentication_tokens\<close>
  fails before decoding and parsing, whatever callback value line 208 gave it (the argument,
  or the attribute \<open>self.callback_url\<close> when the argument is empty): with
  \<open>TwythonAuthError\<close> for 401 and \<open>TwythonError\<close> for any other status.
\<close>

theorem authorized_tokens_ignore_status:
  assumes "send env t (client self) ''get'' (access_token_url self)
             (Query [(''oauth_verifier'', v)]) = Inr (resp\<lparr>status_code := code\<rparr>)"
    and "decode env (content resp) = Some body"
  shows "get_authorized_tokens env t self v =
           (if dict_of (parse_qsl env body) = [] then Inl no_authorized_tokens
            else Inr (dict_of (parse_qsl env body)))
       \<and> (dict_of (parse_qsl env body) = [] \<longleftrightarrow> parse_qsl env body = [])
       \<and> (\<forall>cb cb1 fl sn t'.
             (if truthy_opt cb then Inr cb else read_callback_url self) = Inr cb1 \<longrightarrow>
             code \<noteq> 200 \<longrightarrow>
             send env t' (client self) ''get'' (request_token_url self)
               (Query (if truthy_opt cb1 then [(''oauth_callback'', opt_val cb1)] else []))
               = Inr (resp\<lparr>status_code := code\<rparr>) \<longrightarrow>
             get_authentication_tokens env t' self cb fl sn =
               Inl (Twython (if code = 401 then TwythonAuthError else TwythonError)
                      (MsgBytes (content resp)) (Some code) None))"
proof (intro conjI allI impI)
  show "get_authorized_tokens env t self v =
           (if dict_of (parse_qsl env body) = [] then Inl no_authorized_tokens
            else Inr (dict_of (parse_qsl env body)))"
    using assms by (simp add: get_authorized_tokens_def Let_def)
next
  show "dict_of (parse_qsl env body) = [] \<longleftrightarrow> parse_qsl env body = []"
    by (rule dict_of_empty)
next
  fix cb cb1 fl sn t'
  assume "(if truthy_opt cb then Inr cb else read_callback_url self) = Inr cb1" "code \<noteq> 200"
    and "send env t' (client self) ''get'' (request_token_url self)
           (Query (if truthy_opt cb1 then [(''oauth_callback'', opt_val cb1)] else []))
           = Inr (resp\<lparr>status_code := code\<rparr>)"
  from authentication_tokens_status[OF this(1) this(3), of fl sn] this(2)
  show "get_authentication_tokens env t' self cb fl sn =
               Inl (Twython (if code = 401 then TwythonAuthError else TwythonError)
                      (MsgBytes (content resp)) (Some code) None)"
    by simp
qed

text \<open>A token body answered with status 401: the access-token step returns the tokens,
  the request-token step raises \<open>TwythonAuthError\<close>.\<close>

theorem authorized_tokens_ignore_status_witness:
  "send (lib (reply 401 [] ''oauth_token=abc&oauth_token_secret=def'')) 0
       (client (sample_client (reply 401 [] ''oauth_token=abc&oauth_token_secret=def''))) ''get''
       (access_token_url (sample_client (reply 401 [] ''oauth_token=abc&oauth_token_secret=def'')))
       (Query [(''oauth_verifier'', PStr ''1234'')])
     = Inr ((reply 200 [] ''oauth_token=abc&oauth_token_secret=def'')\<lparr>status_code := 401\<rparr>)
   \<and> decode (lib (reply 401 [] ''oauth_token=abc&oauth_token_secret=def''))
        (content (reply 200 [] ''oauth_token=abc&oauth_token_secret=def''))
     = Some ''oauth_token=abc&oauth_token_secret=def''
   \<and> get_authorized_tokens (lib (reply 401 [] ''oauth_token=abc&oauth_token_secret=def'')) 0
        (sample_client (reply 401 [] ''oauth_token=abc&oauth_token_secret=def'')) (PStr ''1234'')
     = Inr [(''oauth_token'', ''abc''), (''oauth_token_secret'', ''def'')]
   \<and> (if truthy_opt (Some ''http://example.com/cb'') then Inr (Some ''http://example.com/cb'')
       else read_callback_url (sample_client (reply 401 [] ''oauth_token=abc&oauth_token_secret=def'')))
     = Inr (Some ''http://example.com/cb'')
   \<and> (401::int) \<noteq> 200
   \<and> get_authentication_tokens (lib (reply 401 [] ''oauth_token=abc&oauth_token_secret=def'')) 1
        (sample_client (reply 401 [] ''oauth_token=abc&oauth_token_secret=def''))
        (Some ''http://example.com/cb'') False ''''
     = Inl (Twython TwythonAuthError (MsgBytes ''oauth_token=abc&oauth_token_secret=def'') (Some 401) None)"
proof -
  let ?B = "''oauth_token=abc&oauth_token_secret=def''"
  let ?R = "reply 401 [] ?B"
  let ?cb = "Some ''http://example.com/cb''"
  have e: "(reply 200 [] ?B)\<lparr>status_code := 401\<rparr> = ?R"
    by (simp add: reply_def)
  have h1: "send (lib ?R) 0 (client (sample_client ?R)) ''get'' (access_token_url (sample_client ?R))
       (Query [(''oauth_verifier'', PStr ''1234'')]) = Inr ((reply 200 [] ?B)\<lparr>status_code := 401\<rparr>)"
    by (simp add: send_lib e)
  have h2: "decode (lib ?R) (content (reply 200 [] ?B)) = Some ?B"
    by (simp add: decode_lib reply_simps utf8_decode_def)
  have d: "dict_of (parse_qsl (lib ?R) ?B) = [(''oauth_token'', ''abc''), (''oauth_token_secret'', ''def'')]"
    by (simp add: parse_qsl_lib sample_parse_qsl_def dict_of_def)
  have c: "(if truthy_opt ?cb then Inr ?cb else read_callback_url (sample_client ?R)) = Inr ?cb"
    by simp
  have h3: "send (lib ?R) 1 (client (sample_client ?R)) ''get'' (request_token_url (sample_client ?R))
       (Query (if truthy_opt ?cb then [(''oauth_callback'', opt_val ?cb)] else []))
       = Inr ((reply 200 [] ?B)\<lparr>status_code := 401\<rparr>)"
    by (simp add: send_lib e)
  note inst = authorized_tokens_ignore_status[OF h1 h2]
  from inst have a: "get_authorized_tokens (lib ?R) 0 (sample_client ?R) (PStr ''1234'')
     = Inr [(''oauth_token'', ''abc''), (''oauth_token_secret'', ''def'')]"
    by (simp add: d)
  from inst have "(if truthy_opt ?cb then Inr ?cb else read_callback_url (sample_client ?R)) = Inr ?cb \<longrightarrow>
      (401::int) \<noteq> 200 \<longrightarrow>
      send (lib ?R) 1 (client (sample_client ?R)) ''get'' (request_token_url (sample_client ?R))
        (Query (if truthy_opt ?cb then [(''oauth_callback'', opt_val ?cb)] else []))
        = Inr ((reply 200 [] ?B)\<lparr>status_code := 401\<rparr>) \<longrightarrow>
      get_authentication_tokens (lib ?R) 1 (sample_client ?R) ?cb False '''' =
        Inl (Twython (if (401::int) = 401 then TwythonAuthError else TwythonError)
               (MsgBytes (content (reply 200 [] ?B))) (Some 401) None)"
    by blast
  with c h3 have b: "get_authentication_tokens (lib ?R) 1 (sample_client ?R) ?cb False ''''
     = Inl (Twython TwythonAuthError (MsgBytes ?B) (Some 401) None)"
    by (simp add: reply_simps)
  from h1 h2 a c b show ?thesis by simp
qed

text \<open>A response whose body is the byte \<open>0xFF\<close>: the call fails with
  \<open>UnicodeDecodeError\<close>, which is not the generic error, and no mapping was parsed.\<close>

theorem authorized_tokens_counterexample:
  "decode (lib (reply 200 [] [CHR 0xFF])) (content (reply 200 [] [CHR 0xFF])) = None
   \<and> get_authorized_tokens (lib (reply 200 [] [CHR 0xFF])) 0 (sample_client (reply 200 [] [CHR 0xFF]))
        (PStr ''1234'') = Inl UnicodeDecodeError
   \<and> \<not> is_twython UnicodeDecodeError"
proof -
  let ?R = "reply 200 [] [CHR 0xFF]"
  have d: "decode (lib ?R) (content ?R) = None"
    by (simp add: decode_lib reply_simps utf8_decode_def)
  then show ?thesis
    by (simp add: get_authorized_tokens_def send_lib)
qed

text \<open>
  Claim C7. The claim asks for the caller's callback URL as the \<open>oauth_callback\<close> parameter
  of \<open>auth_url\<close> when the server did not confirm the callback. The code takes the
  parameter from the attribute \<open>self.callback_url\<close> instead (line 237), which the
  constructor never assigns: on a client as constructed, with a callback URL passed by the
  caller, a response with status 200 whose tokens include \<open>oauth_token\<close> and do not
  confirm the callback makes \<open>get_authentication_tokens\<close> end in \<open>AttributeError\<close>;
  no \<open>auth_url\<close> is returned.
\<close>

theorem authentication_tokens_callback_attribute:
  assumes "truthy_opt cb"
    and "send env t (client (init env k s tk tks h px v ssl)) ''get''
           (request_token_url (init env k s tk tks h px v ssl))
           (Query [(''oauth_callback'', opt_val cb)]) = Inr resp"
    and "status_code resp = 200"
    and "decode env (content resp) = Some body"
    and "map_of (dict_of (parse_qsl env body)) ''oauth_token'' = Some tok"
    and "map_of (dict_of (parse_qsl env body)) ''oauth_callback_confirmed'' \<noteq> Some ''true''"
  shows "get_authentication_tokens env t (init env k s tk tks h px v ssl) cb force_login screen_name
           = Inl AttributeError"
proof -
  have ne: "dict_of (parse_qsl env body) \<noteq> []"
    using assms(5) by auto
  have "add_auth_url env (init env k s tk tks h px v ssl) cb force_login screen_name
          (dict_of (parse_qsl env body)) = Inl AttributeError"
    using assms(1,5,6)
    by (simp add: add_auth_url_def Let_def read_callback_url_def init_callback_url)
  then show ?thesis
    using assms(1-4) ne by (simp add: get_authentication_tokens_def Let_def)
qed

text \<open>The failing input: a client constructed with a key and a secret, the callback
  \<open>http://example.com/cb\<close>, and the response 200 \<open>oauth_token=abc&oauth_token_secret=def\<close>.\<close>

theorem authentication_tokens_callback_attribute_witness:
  "truthy_opt (Some ''http://example.com/cb'')
   \<and> status_code (reply 200 [] ''oauth_token=abc&oauth_token_secret=def'') = 200
   \<and> map_of (dict_of (parse_qsl (lib (reply 200 [] ''oauth_token=abc&oauth_token_secret=def''))
        ''oauth_token=abc&oauth_token_secret=def'')) ''oauth_token'' = Some ''abc''
   \<and> map_of (dict_of (parse_qsl (lib (reply 200 [] ''oauth_token=abc&oauth_token_secret=def''))
        ''oauth_token=abc&oauth_token_secret=def'')) ''oauth_callback_confirmed'' \<noteq> Some ''true''
   \<and> get_authentication_tokens (lib (reply 200 [] ''oauth_token=abc&oauth_token_secret=def'')) 0
        (init (lib (reply 200 [] ''oauth_token=abc&oauth_token_secret=def''))
           (Some ''key'') (Some ''secret'') None None None None ''1.1'' True)
        (Some ''http://example.com/cb'') False '''' = Inl AttributeError"
proof -
  let ?B = "''oauth_token=abc&oauth_token_secret=def''"
  let ?R = "reply 200 [] ?B"
  let ?S = "init (lib ?R) (Some ''key'') (Some ''secret'') None None None None ''1.1'' True"
  have h1: "truthy_opt (Some ''http://example.com/cb'')" by simp
  have h2: "send (lib ?R) 0 (client ?S) ''get'' (request_token_url ?S)
       (Query [(''oauth_callback'', opt_val (Some ''http://example.com/cb''))]) = Inr ?R"
    by (rule send_lib)
  have h3: "status_code ?R = 200" by (simp add: reply_simps)
  have h4: "decode (lib ?R) (content ?R) = Some ?B"
    by (simp add: decode_lib reply_simps utf8_decode_def)
  have d: "dict_of (parse_qsl (lib ?R) ?B) = [(''oauth_token'', ''abc''), (''oauth_token_secret'', ''def'')]"
    by (simp add: parse_qsl_lib sample_parse_qsl_def dict_of_def)
  have h5: "map_of (dict_of (parse_qsl (lib ?R) ?B)) ''oauth_token'' = Some ''abc''"
    by (simp add: d)
  have h6: "map_of (dict_of (parse_qsl (lib ?R) ?B)) ''oauth_callback_confirmed'' \<noteq> Some ''true''"
    by (simp add: d)
  from authentication_tokens_callback_attribute[OF h1 h2 h3 h4 h5 h6, of False "''''"] h1 h3 h5 h6
  show ?thesis by blast
qed

text \<open>When code outside the class has assigned the attribute, its value, not the caller's
  URL, becomes the \<open>oauth_callback\<close> parameter.\<close>

lemma auth_url_takes_attribute:
  assumes "callback_url self = Some (Some other)"
    and "truthy_opt cb"
    and "map_of tokens ''oauth_token'' = Some tok"
    and "map_of tokens ''oauth_callback_confirmed'' \<noteq> Some ''true''"
  shows "add_auth_url env self cb False sn tokens =
     Inr (dict_set tokens ''auth_url''
            (authenticate_url self @ ''?'' @
             urlencode env [(''oauth_token'', PStr tok), (''oauth_callback'', PStr other)]))"
  using assms by (simp add: add_auth_url_def Let_def read_callback_url_def opt_val_def)

section \<open>The paginating search generator\<close>

lemma search_unfold:
  "search env t self ps = request_internal env t self search_url ''GET'' (Some ps) (Some search_url)"
  by (simp add: search_def get_def request_def api_url_def search_url_def Let_def)

lemma page_statuses:
  assumes "py_get body ''statuses'' PNone = Inr (PList (tw # tws))"
  shows "py_item body ''statuses'' = Inr (PList (tw # tws))"
  using assms by (cases body) (auto split: option.splits)

lemma statuses_page:
  assumes "py_item body ''statuses'' = Inr (PList (tw # tws))"
  shows "py_get body ''statuses'' PNone = Inr (PList (tw # tws))"
  using assms by (cases body) (auto split: option.splits)

lemma next_params_page:
  assumes "py_item body ''statuses'' = Inr (PList (tw # tws))"
  shows "next_params env params body =
     (if ''since_id'' \<in> fst ` set params then Inr params
      else case id_of env tw of
             Inr i \<Rightarrow> Inr (params @ [(''since_id'', PInt (i + 1))])
           | Inl e \<Rightarrow> Inl (if e = TypeError \<or> e = ValueError then pagination_error else e))"
  using assms
  by (simp add: next_params_def id_of_def dict_set_fresh split: sum.splits)

lemma next_params_pinned:
  "''since_id'' \<in> fst ` set params \<Longrightarrow> next_params env params body = Inr params"
  by (simp add: next_params_def)

text \<open>The errors of \<open>int(status['id_str'])\<close>: a missing key, a value of the wrong type, a
  string that is no integer or a NaN, an infinite float.\<close>

lemma id_of_error:
  "id_of env tw = Inl e \<Longrightarrow> e \<in> {KeyError, TypeError, ValueError, OverflowError}"
proof -
  have "py_int env v = Inl e \<Longrightarrow> e \<in> {TypeError, ValueError, OverflowError}" for v
    by (induction env v rule: py_int.induct) (auto split: option.splits)
  moreover have "py_item tw ''id_str'' = Inl e \<Longrightarrow> e \<in> {KeyError, TypeError}"
    by (cases tw) (auto split: option.splits)
  moreover assume "id_of env tw = Inl e"
  ultimately show ?thesis
    by (auto simp: id_of_def split: sum.splits)
qed

text \<open>One activation of the generator on a page with statuses, by what lines 318-322 give.\<close>

lemma search_gen_continue:
  assumes "''q'' \<notin> fst ` set params"
    and "fst (search env t self ((''q'', q) # params)) = Inr body"
    and "py_item body ''statuses'' = Inr (PList (tw # tws))"
    and "next_params env params body = Inr params'"
  shows "search_gen env (Suc n) t self q params =
     yield_then (tw # tws)
       (search_gen env n (Suc t) (snd (search env t self ((''q'', q) # params))) q params')"
proof -
  obtain r s1 where sr: "search env t self ((''q'', q) # params) = (r, s1)"
    by (cases "search env t self ((''q'', q) # params)")
  with assms(2) have r: "r = Inr body" by simp
  show ?thesis
    using assms(1) by (simp add: sr r assms(3) statuses_page[OF assms(3)] assms(4))
qed

lemma search_gen_raise:
  assumes "''q'' \<notin> fst ` set params"
    and "fst (search env t self ((''q'', q) # params)) = Inr body"
    and "py_item body ''statuses'' = Inr (PList (tw # tws))"
    and "next_params env params body = Inl e"
  shows "fst (search_gen env (Suc n) t self q params) = (tw # tws, Raised e)"
proof -
  obtain r s1 where sr: "search env t self ((''q'', q) # params) = (r, s1)"
    by (cases "search env t self ((''q'', q) # params)")
  with assms(2) have r: "r = Inr body" by simp
  show ?thesis
    using assms(1) by (simp add: sr r assms(3) statuses_page[OF assms(3)] assms(4))
qed

text \<open>The paging server.\<close>

lemma paging_lib_simps:
  "decode paging_lib = utf8_decode" "loads paging_lib = sample_loads"
  "int_of_str paging_lib = decimal"
  by (simp_all add: paging_lib_def lib_def)

lemma paging_transmit:
  "transmit paging_lib t self search_url ''GET'' (Some ps)
     = paging_send t (client self) ''get'' search_url (Query ps)"
  by (simp add: transmit_def paging_lib_def lib_def Let_def lower_GET)

lemma paging_first_page:
  "fst (search paging_lib t self [(''q'', q)])
     = Inr (PDict [(''statuses'', PList [tweet ''5'', tweet ''3''])])"
proof -
  let ?B = \<open>''{"statuses":[{"id_str":"5"},{"id_str":"3"}]}''\<close>
  have t: "transmit paging_lib t self search_url ''GET'' (Some [(''q'', q)]) = Inr (reply 200 [] ?B)"
    by (simp add: paging_transmit paging_send_def)
  have d: "decode paging_lib (content (reply 200 [] ?B)) = Some ?B"
    by (simp add: paging_lib_simps reply_simps utf8_decode_def)
  have s: "status_code (reply 200 [] ?B) \<le> 304" by (simp add: reply_simps)
  show ?thesis
    by (simp add: search_unfold request_internal_low[OF t d s] paging_lib_simps
        sample_loads_def body_of_def tweet_def)
qed

lemma paging_later_page:
  "fst (search paging_lib t self [(''q'', q), (''since_id'', PInt 6)])
     = Inr (PDict [(''statuses'', PList [tweet ''9'', tweet ''8''])])"
proof -
  let ?B = \<open>''{"statuses":[{"id_str":"9"},{"id_str":"8"}]}''\<close>
  have t: "transmit paging_lib t self search_url ''GET'' (Some [(''q'', q), (''since_id'', PInt 6)])
             = Inr (reply 200 [] ?B)"
    by (simp add: paging_transmit paging_send_def)
  have d: "decode paging_lib (content (reply 200 [] ?B)) = Some ?B"
    by (simp add: paging_lib_simps reply_simps utf8_decode_def)
  have s: "status_code (reply 200 [] ?B) \<le> 304" by (simp add: reply_simps)
  show ?thesis
    by (simp add: search_unfold request_internal_low[OF t d s] paging_lib_simps
        sample_loads_def body_of_def tweet_def)
qed

lemma id_of_tweet:
  "id_of paging_lib (tweet ''5'') = Inr 5" "id_of paging_lib (tweet ''9'') = Inr 9"
  by (simp_all add: id_of_def tweet_def paging_lib_simps decimal_def digit_val_def)

lemma paging_first:
  "search_gen paging_lib (Suc n) t self q [] =
     yield_then [tweet ''5'', tweet ''3'']
       (search_gen paging_lib n (Suc t) (snd (search paging_lib t self [(''q'', q)])) q
          [(''since_id'', PInt 6)])"
proof -
  have st: "py_item (PDict [(''statuses'', PList [tweet ''5'', tweet ''3''])]) ''statuses''
              = Inr (PList (tweet ''5'' # [tweet ''3'']))"
    by simp
  have np: "next_params paging_lib [] (PDict [(''statuses'', PList [tweet ''5'', tweet ''3''])])
              = Inr [(''since_id'', PInt 6)]"
    by (simp add: next_params_page[OF st] id_of_tweet)
  show ?thesis
    using search_gen_continue[OF _ paging_first_page st np, of n] by simp
qed

lemma paging_later:
  "search_gen paging_lib (Suc n) t self q [(''since_id'', PInt 6)] =
     yield_then [tweet ''9'', tweet ''8'']
       (search_gen paging_lib n (Suc t)
          (snd (search paging_lib t self [(''q'', q), (''since_id'', PInt 6)])) q
          [(''since_id'', PInt 6)])"
proof -
  have st: "py_item (PDict [(''statuses'', PList [tweet ''9'', tweet ''8''])]) ''statuses''
              = Inr (PList (tweet ''9'' # [tweet ''8'']))"
    by simp
  have np: "next_params paging_lib [(''since_id'', PInt 6)]
              (PDict [(''statuses'', PList [tweet ''9'', tweet ''8''])])
              = Inr [(''since_id'', PInt 6)]"
    by (simp add: next_params_pinned)
  show ?thesis
    using search_gen_continue[OF _ paging_later_page st np, of n] by simp
qed

text \<open>
  Claim C4, as the code has it, for the page that a call of the generator with the caller's
  parameters \<open>params\<close> fetches first. When the response of that page has a non-empty
  \<open>statuses\<close> list, the call yields the tweets of the list in the order received. Then,
  if the caller's \<open>params\<close> contain \<open>since_id\<close>, the sequence goes on as that of the
  generator called with the same parameters. Otherwise it goes on as that of the generator
  called with \<open>since_id\<close> set to \<open>int\<close> of the \<open>id_str\<close> of the first status plus 1,
  when that conversion succeeds; when it raises \<open>TypeError\<close> or \<open>ValueError\<close> the
  generator fails with the pagination \<open>TwythonError\<close>, after the tweets of the page; any
  other exception of the conversion (\<open>KeyError\<close> for a first status without \<open>id_str\<close>,
  \<open>OverflowError\<close> for an infinite float) passes as it is.
\<close>

theorem search_gen_page:
  assumes "''q'' \<notin> fst ` set params"
    and "search env t self ((''q'', q) # params) = (Inr body, self1)"
    and "py_get body ''statuses'' PNone = Inr (PList (tw # tws))"
  shows "search_gen env (Suc n) t self q params =
     (if ''since_id'' \<in> fst ` set params
      then yield_then (tw # tws) (search_gen env n (Suc t) self1 q params)
      else case id_of env tw of
             Inr i \<Rightarrow>
               yield_then (tw # tws)
                 (search_gen env n (Suc t) self1 q (params @ [(''since_id'', PInt (i + 1))]))
           | Inl e \<Rightarrow>
               ((tw # tws, Raised (if e = TypeError \<or> e = ValueError then pagination_error else e)),
                self1))"
proof -
  note st = page_statuses[OF assms(3)]
  show ?thesis
    using assms
    by (simp add: st next_params_page[OF st] split: sum.splits)
qed

text \<open>The scenario of the spec, against the paging server: the statuses with \<open>id_str\<close> "5"
  and "3" are yielded, and the next page is fetched with \<open>since_id = 6\<close>, for which alone
  the server has the page with the ids 9 and 8.\<close>

theorem search_gen_page_witness:
  "''q'' \<notin> fst ` set ([] :: params)
   \<and> search paging_lib 0 (sample_client (reply 200 [] ''{}'')) [(''q'', PStr ''python'')]
     = (Inr (PDict [(''statuses'', PList [tweet ''5'', tweet ''3''])]),
        snd (search paging_lib 0 (sample_client (reply 200 [] ''{}'')) [(''q'', PStr ''python'')]))
   \<and> py_get (PDict [(''statuses'', PList [tweet ''5'', tweet ''3''])]) ''statuses'' PNone
     = Inr (PList (tweet ''5'' # [tweet ''3'']))
   \<and> id_of paging_lib (tweet ''5'') = Inr 5
   \<and> search_gen paging_lib (Suc (Suc 0)) 0 (sample_client (reply 200 [] ''{}'')) (PStr ''python'') []
     = yield_then [tweet ''5'', tweet ''3'']
         (search_gen paging_lib (Suc 0) (Suc 0)
            (snd (search paging_lib 0 (sample_client (reply 200 [] ''{}'')) [(''q'', PStr ''python'')]))
            (PStr ''python'') [(''since_id'', PInt 6)])
   \<and> fst (search_gen paging_lib (Suc (Suc 0)) 0 (sample_client (reply 200 [] ''{}''))
            (PStr ''python'') [])
     = ([tweet ''5'', tweet ''3'', tweet ''9'', tweet ''8''], Suspended)"
proof -
  let ?S = "sample_client (reply 200 [] ''{}'')"
  let ?page = "PDict [(''statuses'', PList [tweet ''5'', tweet ''3''])]"
  let ?S1 = "snd (search paging_lib 0 ?S [(''q'', PStr ''python'')])"
  have h1: "''q'' \<notin> fst ` set ([] :: params)" by simp
  have h2: "search paging_lib 0 ?S [(''q'', PStr ''python'')] = (Inr ?page, ?S1)"
    using paging_first_page[of 0 ?S "PStr ''python''"] by (simp add: prod_eq_iff)
  have h3: "py_get ?page ''statuses'' PNone = Inr (PList (tweet ''5'' # [tweet ''3'']))"
    by simp
  have i: "id_of paging_lib (tweet ''5'') = Inr 5"
    by (rule id_of_tweet)
  from search_gen_page[OF h1 h2 h3, of "Suc 0"]
  have g: "search_gen paging_lib (Suc (Suc 0)) 0 ?S (PStr ''python'') []
     = yield_then [tweet ''5'', tweet ''3'']
         (search_gen paging_lib (Suc 0) (Suc 0) ?S1 (PStr ''python'') [(''since_id'', PInt 6)])"
    by (simp add: i)
  have e: "fst (search_gen paging_lib (Suc (Suc 0)) 0 ?S (PStr ''python'') [])
     = ([tweet ''5'', tweet ''3'', tweet ''9'', tweet ''8''], Suspended)"
    unfolding g paging_later by (simp add: yield_then_def)
  from h1 h2 h3 i g e show ?thesis by blast
qed

text \<open>
  Three inputs. A page whose first status has no \<open>id_str\<close>, and a page whose first
  status has the number \<open>1e999\<close>, an infinite float, as \<open>id_str\<close>: the generator
  yields the tweet and then ends in \<open>KeyError\<close> and in \<open>OverflowError\<close>, not in the
  pagination error. And a run of three pages for a caller whose parameters have no
  \<open>since_id\<close>, against the paging server: the second page has the ids 9 and 8, and the
  third page is fetched with \<open>since_id = 6\<close> again, the value taken from the first page,
  not with 10; the server answers with the page of the ids 9 and 8 a second time, where
  for \<open>since_id = 10\<close> it has a page without statuses.
\<close>

theorem search_gen_id_counterexample:
  \<open>fst (search_gen (lib (reply 200 [] ''{"statuses":[{"id":5}]}'')) (Suc 0) 0
          (sample_client (reply 200 [] ''{"statuses":[{"id":5}]}'')) (PStr ''python'') [])
     = ([PDict [(''id'', PInt 5)]], Raised KeyError)
   \<and> fst (search_gen (lib (reply 200 [] ''{"statuses":[{"id_str":1e999}]}'')) (Suc 0) 0
          (sample_client (reply 200 [] ''{"statuses":[{"id_str":1e999}]}'')) (PStr ''python'') [])
     = ([PDict [(''id_str'', PFloat PosInf)]], Raised OverflowError)
   \<and> Raised KeyError \<noteq> Raised pagination_error
   \<and> Raised OverflowError \<noteq> Raised pagination_error
   \<and> id_of paging_lib (tweet ''9'') = Inr 9
   \<and> fst (search_gen paging_lib (Suc (Suc (Suc 0))) 0 (sample_client (reply 200 [] ''{}''))
            (PStr ''python'') [])
     = ([tweet ''5'', tweet ''3'', tweet ''9'', tweet ''8'', tweet ''9'', tweet ''8''], Suspended)\<close>
proof -
  have page: "fst (search_gen (lib (reply 200 [] b)) (Suc 0) 0 (sample_client (reply 200 [] b))
                 (PStr ''python'') []) = ([tw], Raised e)"
    if d: "utf8_decode b = Some b"
      and l: "sample_loads b = Some (PDict [(''statuses'', PList [tw])])"
      and i: "id_of (lib (reply 200 [] b)) tw = Inl e"
      and e: "e \<noteq> TypeError" "e \<noteq> ValueError"
    for b tw e
  proof -
    let ?R = "reply 200 [] b"
    let ?page = "PDict [(''statuses'', PList [tw])]"
    have t: "transmit (lib ?R) 0 (sample_client ?R) search_url ''GET'' (Some [(''q'', PStr ''python'')]) = Inr ?R"
      by (rule transmit_lib)
    have dd: "decode (lib ?R) (content ?R) = Some b"
      by (simp add: decode_lib reply_simps d)
    have s: "status_code ?R \<le> 304" by (simp add: reply_simps)
    have f: "fst (search (lib ?R) 0 (sample_client ?R) [(''q'', PStr ''python'')]) = Inr ?page"
      by (simp add: search_unfold request_internal_low[OF t dd s] loads_lib l body_of_def)
    have st: "py_item ?page ''statuses'' = Inr (PList (tw # []))" by simp
    have np: "next_params (lib ?R) [] ?page = Inl e"
      using e by (simp add: next_params_page[OF st] i)
    show ?thesis
      using search_gen_raise[OF _ f st np, of 0] by simp
  qed
  have a: \<open>fst (search_gen (lib (reply 200 [] ''{"statuses":[{"id":5}]}'')) (Suc 0) 0
          (sample_client (reply 200 [] ''{"statuses":[{"id":5}]}'')) (PStr ''python'') [])
     = ([PDict [(''id'', PInt 5)]], Raised KeyError)\<close>
    by (rule page) (simp_all add: utf8_decode_def sample_loads_def id_of_def)
  have b: \<open>fst (search_gen (lib (reply 200 [] ''{"statuses":[{"id_str":1e999}]}'')) (Suc 0) 0
          (sample_client (reply 200 [] ''{"statuses":[{"id_str":1e999}]}'')) (PStr ''python'') [])
     = ([PDict [(''id_str'', PFloat PosInf)]], Raised OverflowError)\<close>
    by (rule page) (simp_all add: utf8_decode_def sample_loads_def id_of_def)
  have c: "fst (search_gen paging_lib (Suc (Suc (Suc 0))) 0 (sample_client (reply 200 [] ''{}''))
            (PStr ''python'') [])
     = ([tweet ''5'', tweet ''3'', tweet ''9'', tweet ''8'', tweet ''9'', tweet ''8''], Suspended)"
    unfolding paging_first paging_later by (simp add: yield_then_def)
  from a b c show ?thesis by (simp add: pagination_error_def id_of_tweet)
qed

text \<open>A page without statuses ends the generator: exhausted before Python 3.7, with
  \<open>RuntimeError\<close> from 3.7 on.\<close>

lemma search_gen_no_statuses:
  assumes "''q'' \<notin> fst ` set params"
    and "search env t self ((''q'', q) # params) = (Inr body, self1)"
    and "py_get body ''statuses'' PNone = Inr statuses"
    and "\<not> truthy statuses"
  shows "search_gen env (Suc n) t self q params =
     (([], if generator_stop env then Raised RuntimeError else Exhausted), self1)"
  using assms by (simp add: stop_iteration_def)

end
